theory Spec2Isabelle
  imports Complex_Main
begin

section \<open>Python values\<close>

text \<open>
  The content pipeline is Python. Its exceptions are values of \<open>py_error\<close>, and a
  function that can raise returns \<open>py_error + 'a\<close> (\<open>Inl\<close> the exception). Python's
  \<open>float\<close> scores are modelled as \<open>real\<close>; a \<open>str\<close> is a \<open>string\<close> whose characters
  are the code points 0 to 255. On these, \<open>is_space\<close> is the class \<open>\s\<close> of \<open>re\<close> and
  the whitespace of \<open>str.split\<close> and \<open>str.strip\<close> (with U+0085 and U+00A0),
  \<open>is_upper\<close> and \<open>is_alpha\<close> are the classes \<open>[A-Z]\<close> and \<open>[a-zA-Z]\<close>, and
  \<open>char_lower\<close> is \<open>str.lower\<close>, which also lowers the capital letters U+00C0 to
  U+00DE other than the multiplication sign U+00D7.
\<close>

datatype py_error = AttributeError | ZeroDivisionError | ValueError | ClientError | OtherException

definition is_upper :: "char \<Rightarrow> bool" where
  "is_upper c = (65 \<le> (of_char c :: nat) \<and> (of_char c :: nat) \<le> 90)"

definition is_alpha :: "char \<Rightarrow> bool" where
  "is_alpha c = (is_upper c \<or> (97 \<le> (of_char c :: nat) \<and> (of_char c :: nat) \<le> 122))"

definition is_space :: "char \<Rightarrow> bool" where
  "is_space c = ((9 \<le> (of_char c :: nat) \<and> (of_char c :: nat) \<le> 13)
     \<or> (28 \<le> (of_char c :: nat) \<and> (of_char c :: nat) \<le> 32)
     \<or> (of_char c :: nat) = 133 \<or> (of_char c :: nat) = 160)"

definition has_lower :: "char \<Rightarrow> bool" where
  "has_lower c = (is_upper c
     \<or> (192 \<le> (of_char c :: nat) \<and> (of_char c :: nat) \<le> 214)
     \<or> (216 \<le> (of_char c :: nat) \<and> (of_char c :: nat) \<le> 222))"

definition char_lower :: "char \<Rightarrow> char" where
  "char_lower c = (if has_lower c then char_of ((of_char c :: nat) + 32) else c)"

definition str_lower :: "string \<Rightarrow> string" where
  "str_lower s = map char_lower s"

fun startswith :: "string \<Rightarrow> string \<Rightarrow> bool" where
  "startswith s [] = True"
| "startswith [] (p # ps) = False"
| "startswith (c # cs) (p # ps) = (c = p \<and> startswith cs ps)"

text \<open>\<open>str_in p s\<close> is Python's \<open>p in s\<close> on strings.\<close>

fun str_in :: "string \<Rightarrow> string \<Rightarrow> bool" where
  "str_in p [] = (p = [])"
| "str_in p (c # cs) = (startswith (c # cs) p \<or> str_in p cs)"

text \<open>\<open>str_split d s\<close> is \<open>s.split(d)\<close> for a one-character separator.\<close>

fun str_split :: "char \<Rightarrow> string \<Rightarrow> string list" where
  "str_split d [] = [[]]"
| "str_split d (c # cs) =
     (if c = d then [] # str_split d cs
      else (case str_split d cs of [] \<Rightarrow> [[c]] | w # ws \<Rightarrow> (c # w) # ws))"

text \<open>\<open>str_replace d r s\<close> is \<open>s.replace(d, r)\<close> for a one-character \<open>d\<close>.\<close>

definition str_replace :: "char \<Rightarrow> string \<Rightarrow> string \<Rightarrow> string" where
  "str_replace d r s = concat (map (\<lambda>c. if c = d then r else [c]) s)"

text \<open>
  The regular expressions of the validator are literals, but for \<open>robot.*detected\<close>.
  \<open>re_search\<close> is \<open>re.search\<close> on these two shapes; \<open>.\<close> matches any character but a
  newline.
\<close>

datatype pattern = Lit string | LitAnyLit string string

fun search_any :: "string \<Rightarrow> string \<Rightarrow> string \<Rightarrow> bool" where
  "search_any a b [] = (a = [] \<and> b = [])"
| "search_any a b (c # cs) =
     ((startswith (c # cs) a
        \<and> str_in b (takeWhile (\<lambda>x. x \<noteq> CHR 0x0A) (drop (length a) (c # cs))))
      \<or> search_any a b cs)"

fun re_search :: "pattern \<Rightarrow> string \<Rightarrow> bool" where
  "re_search (Lit p) s = str_in p s"
| "re_search (LitAnyLit a b) s = search_any a b s"

section \<open>Data model (shared/models.py)\<close>

datatype ContentType =
  ARTICLE | REVIEW | INTERVIEW | NEWS | PODCAST_TRANSCRIPT | PODCAST_EPISODE

fun ContentType_value :: "ContentType \<Rightarrow> string" where
  "ContentType_value ARTICLE = ''article''"
| "ContentType_value REVIEW = ''review''"
| "ContentType_value INTERVIEW = ''interview''"
| "ContentType_value NEWS = ''news''"
| "ContentType_value PODCAST_TRANSCRIPT = ''podcast_transcript''"
| "ContentType_value PODCAST_EPISODE = ''podcast_episode''"

datatype Source =
  BILLBOARD | ROLLING_STONE | PITCHFORK | NPR | SPOTIFY | APPLE_PODCASTS | SUBSTACK

fun Source_value :: "Source \<Rightarrow> string" where
  "Source_value BILLBOARD = ''billboard''"
| "Source_value ROLLING_STONE = ''rolling_stone''"
| "Source_value PITCHFORK = ''pitchfork''"
| "Source_value NPR = ''npr''"
| "Source_value SPOTIFY = ''spotify''"
| "Source_value APPLE_PODCASTS = ''apple_podcasts''"
| "Source_value SUBSTACK = ''substack''"

text \<open>\<open>Source(v)\<close>: the member whose value is \<open>v\<close>, else \<open>ValueError\<close>.\<close>

definition Source_of :: "string \<Rightarrow> py_error + Source" where
  "Source_of v =
     (case filter (\<lambda>m. Source_value m = v)
        [BILLBOARD, ROLLING_STONE, PITCHFORK, NPR, SPOTIFY, APPLE_PODCASTS, SUBSTACK] of
        [] \<Rightarrow> Inl ValueError
      | m # _ \<Rightarrow> Inr m)"

record SourceAttribution =
  source :: string
  sa_title :: string
  sa_url :: string
  author :: "string option"
  publication_date :: "string option"
  publication_type :: string
  sa_content_type :: "string option"
  episode_info :: "(string \<times> string) list option"

definition to_citation_format :: "SourceAttribution \<Rightarrow> string" where
  "to_citation_format a =
     (let base = ''[Source: \"'' @ source a @ ''\"'';
          base = (if sa_title a \<noteq> [] \<and> length (sa_title a) < 60
                  then base @ '', \"'' @ sa_title a @ ''\"'' else base)
      in base @ '']'')"

record datetime =
  dt_year :: nat
  dt_month :: nat
  dt_day :: nat
  dt_hour :: nat
  dt_minute :: nat
  dt_second :: nat

record ScrapedContent =
  sc_id :: string
  url :: string
  title :: string
  content :: string
  content_type :: ContentType
  source_attribution :: "SourceAttribution option"
  scraped_at :: datetime
  confidence_score :: real
  word_count :: nat
  extraction_method :: string
  validation_passed :: bool
  s3_key :: "string option"
  content_hash :: "string option"

record v3_metadata =
  v3_scraped_at :: datetime
  v3_confidence_score :: real
  v3_word_count :: nat
  v3_extraction_method :: string
  v3_validation_passed :: bool
  v3_content_hash :: "string option"

record v3_format =
  v3_id :: string
  v3_url :: string
  v3_title :: string
  v3_content :: string
  v3_content_type :: string
  v3_source_attribution :: SourceAttribution
  v3_meta :: v3_metadata
  v3_s3_key :: "string option"

text \<open>
  \<open>to_v3_format\<close> reads \<open>self.source_attribution.source\<close>: on a record without
  attribution that is an \<open>AttributeError\<close>.
\<close>

definition to_v3_format :: "ScrapedContent \<Rightarrow> py_error + v3_format" where
  "to_v3_format c =
     (case source_attribution c of
        None \<Rightarrow> Inl AttributeError
      | Some a \<Rightarrow> Inr \<lparr>
          v3_id = sc_id c, v3_url = url c, v3_title = title c, v3_content = content c,
          v3_content_type = ContentType_value (content_type c),
          v3_source_attribution = a,
          v3_meta = \<lparr> v3_scraped_at = scraped_at c,
            v3_confidence_score = confidence_score c, v3_word_count = word_count c,
            v3_extraction_method = extraction_method c,
            v3_validation_passed = validation_passed c,
            v3_content_hash = content_hash c \<rparr>,
          v3_s3_key = s3_key c \<rparr>)"

text \<open>
  The library calls of the pipeline, as parameters. \<open>urlparse u\<close> is the scheme and
  the netloc of \<open>urllib.parse.urlparse(u)\<close>, or the \<open>ValueError\<close> it raises;
  \<open>soup_error h\<close> is the exception that \<open>BeautifulSoup(h, 'html.parser')\<close> raises, if it
  raises one; \<open>fromisoformat_ok d\<close> says that \<open>datetime.fromisoformat(d)\<close> returns,
  \<open>json_ok c\<close> that the v3 form of \<open>c\<close> goes through \<open>json.dumps\<close> and \<open>json.loads\<close>;
  \<open>sha256_hexdigest\<close> is \<open>hashlib.sha256(s.encode()).hexdigest()\<close>, \<open>new_ulid u\<close> the
  fresh identifier drawn for the record of URL \<open>u\<close>. \<open>search_artist_patterns t\<close> is
  the first group, stripped, of the first of the uploader's \<open>artist_patterns\<close> that
  \<open>re.search\<close> finds in the title \<open>t\<close>, and \<open>search_artist_mention s\<close> the same for
  the first of its mention patterns found in \<open>s\<close> with a group of at most three words.
\<close>

record pylib =
  urlparse :: "string \<Rightarrow> py_error + (string \<times> string)"
  soup_error :: "string \<Rightarrow> py_error option"
  fromisoformat_ok :: "string \<Rightarrow> bool"
  json_ok :: "ScrapedContent \<Rightarrow> bool"
  sha256_hexdigest :: "string \<Rightarrow> string"
  new_ulid :: "string \<Rightarrow> string"
  search_artist_patterns :: "string \<Rightarrow> string option"
  search_artist_mention :: "string \<Rightarrow> string option"

text \<open>Decimal formatting: \<open>zfill w n\<close> is \<open>f"{n:0wd}"\<close>.\<close>

definition digit_char :: "nat \<Rightarrow> char" where
  "digit_char n = char_of (48 + n mod 10)"

fun digits :: "nat \<Rightarrow> string" where
  "digits n = (if n < 10 then [digit_char n] else digits (n div 10) @ [digit_char (n mod 10)])"

definition zfill :: "nat \<Rightarrow> nat \<Rightarrow> string" where
  "zfill w n = replicate (w - length (digits n)) CHR ''0'' @ digits n"

text \<open>\<open>len(s.split())\<close>: the number of maximal runs of non-whitespace.\<close>

fun count_words :: "bool \<Rightarrow> string \<Rightarrow> nat" where
  "count_words inw [] = 0"
| "count_words inw (c # cs) =
     (if is_space c then count_words False cs
      else (if inw then 0 else 1) + count_words True cs)"

text \<open>
  \<open>ScrapedContent.__post_init__\<close>: word count and hash of a non-empty body, and the
  storage key when none was given and the record has an attribution. An absent hash
  prints as \<open>None\<close> in the key.
\<close>

definition post_init :: "pylib \<Rightarrow> ScrapedContent \<Rightarrow> ScrapedContent" where
  "post_init L c =
     (let c = (if content c \<noteq> []
               then c\<lparr> word_count := count_words False (content c),
                       content_hash := Some (take 16 (sha256_hexdigest L (content c))) \<rparr>
               else c)
      in case source_attribution c of
           None \<Rightarrow> c
         | Some a \<Rightarrow>
             if s3_key c = None \<or> s3_key c = Some []
             then
               (let date_str = zfill 4 (dt_year (scraped_at c)) @ ''/''
                      @ zfill 2 (dt_month (scraped_at c)) @ ''/''
                      @ zfill 2 (dt_day (scraped_at c));
                    src = str_replace CHR '' '' ''_'' (str_lower (source a))
                in c\<lparr> s3_key := Some (''scraped-content/'' @ src @ ''/'' @ date_str
                       @ ''/content-'' @ (case content_hash c of None \<Rightarrow> ''None'' | Some h \<Rightarrow> h)
                       @ ''.json'') \<rparr>)
             else c)"

record ScrapingBatch =
  batch_id :: string
  batch_source :: "Source option"
  content_items :: "ScrapedContent list"
  created_at :: datetime
  total_discovered :: nat
  total_scraped :: nat
  success_rate :: real
  manifest_s3_key :: "string option"

section \<open>Validator (shared/validator.py)\<close>

text \<open>
  The messages of the validator, one constructor for each format string of the source,
  with the values it interpolates.
\<close>

datatype msg =
    Missing_required_field string
  | Missing_source_attribution_field string
  | Confidence_score_out_of_range
  | Invalid_URL_format
  | Content_too_short nat
  | Content_very_long nat
  | Title_too_short nat
  | Title_very_long
  | Suspicious_content_pattern pattern
  | Content_appears_repetitive
  | Low_text_content_ratio
  | Missing_source_attribution
  | Unknown_source string
  | Citation_format_too_short
  | Citation_format_very_long
  | Invalid_attribution_URL
  | Invalid_publication_date_format
  | No_music_keywords
  | Limited_music_relevance
  | Invalid_citation_format
  | Data_lake_compatibility_test_failed
  | Item nat msg
  | Batch_contains_no_content_items
  | Batch_success_rate_too_low real
  | Batch_average_quality_too_low real
  | Batch_too_large nat
  | Mixed_sources_in_single_batch

record ValidationResult =
  passed :: bool
  score :: real
  errors :: "msg list"
  warnings :: "msg list"

record DataLakeCompatibilityCheck =
  compatible :: bool
  format_version :: string
  schema_valid :: bool
  citation_quality :: real
  processing_safe :: bool
  dl_errors :: "msg list"

definition min_content_length :: nat where "min_content_length = 200"
definition max_content_length :: nat where "max_content_length = 50000"
definition min_title_length :: nat where "min_title_length = 5"
definition max_title_length :: nat where "max_title_length = 200"

definition suspicious_patterns :: "pattern list" where
  "suspicious_patterns =
     [Lit ''404 not found'', Lit ''access denied'', Lit ''please enable javascript'',
      LitAnyLit ''robot'' ''detected'', Lit ''captcha'', Lit ''cloudflare'',
      Lit ''subscription required'', Lit ''sign in to continue'',
      Lit ''this content is not available'']"

definition valid_sources :: "string list" where
  "valid_sources =
     [''Billboard'', ''Rolling Stone'', ''Pitchfork'', ''NPR'', ''Sound Opinions'',
      ''All Songs Considered'', ''Fresh Air'', ''Spotify'', ''Apple Podcasts'']"

definition music_keywords :: "string list" where
  "music_keywords =
     [''music'', ''album'', ''song'', ''artist'', ''band'', ''musician'', ''singer'',
      ''concert'', ''tour'', ''festival'', ''record'', ''recording'', ''studio'',
      ''genre'', ''jazz'', ''rock'', ''pop'', ''hip-hop'', ''classical'', ''folk'',
      ''guitar'', ''piano'', ''drums'', ''vocals'', ''lyrics'', ''melody'']"

text \<open>
  The running state of one check: its errors, its warnings and its score. \<open>add_error\<close>
  is \<open>errors.append(m); score *= f\<close>, \<open>add_warning\<close> the same on the warnings.
\<close>

type_synonym check = "msg list \<times> msg list \<times> real"

definition add_error :: "msg \<Rightarrow> real \<Rightarrow> check \<Rightarrow> check" where
  "add_error m f = (\<lambda>(es, ws, s). (es @ [m], ws, s * f))"

definition add_warning :: "msg \<Rightarrow> real \<Rightarrow> check \<Rightarrow> check" where
  "add_warning m f = (\<lambda>(es, ws, s). (es, ws @ [m], s * f))"

definition on :: "bool \<Rightarrow> (check \<Rightarrow> check) \<Rightarrow> check \<Rightarrow> check" where
  "on b f k = (if b then f k else k)"

definition result_of :: "check \<Rightarrow> ValidationResult" where
  "result_of = (\<lambda>(es, ws, s). \<lparr> passed = (es = []), score = s, errors = es, warnings = ws \<rparr>)"

subsection \<open>\<open>_validate_structure\<close>\<close>

text \<open>
  \<open>check_url L u m\<close> is the test of a URL field: nothing for an empty one, else
  \<open>urlparse\<close>, whose exception no \<open>try\<close> surrounds, and the message \<open>m\<close> when the
  scheme or the netloc is empty.
\<close>

definition check_url :: "pylib \<Rightarrow> string \<Rightarrow> msg \<Rightarrow> py_error + msg list" where
  "check_url L u m =
     (if u = [] then Inr []
      else (case urlparse L u of
              Inl e \<Rightarrow> Inl e
            | Inr (scheme, netloc) \<Rightarrow> Inr (if scheme = [] \<or> netloc = [] then [m] else [])))"

definition validate_structure :: "pylib \<Rightarrow> ScrapedContent \<Rightarrow> py_error + ValidationResult" where
  "validate_structure L c =
     (case to_v3_format c of
        Inl e \<Rightarrow> Inl e
      | Inr d \<Rightarrow>
     (case check_url L (url c) Invalid_URL_format of
        Inl e \<Rightarrow> Inl e
      | Inr url_errors \<Rightarrow>
          (let es = concat
                 [if v3_id d = [] then [Missing_required_field ''id''] else [],
                  if v3_url d = [] then [Missing_required_field ''url''] else [],
                  if v3_title d = [] then [Missing_required_field ''title''] else [],
                  if v3_content d = [] then [Missing_required_field ''content''] else []];
               es = es @ (case source_attribution c of
                   None \<Rightarrow> []
                 | Some a \<Rightarrow> concat
                     [if source a = [] then [Missing_source_attribution_field ''source''] else [],
                      if sa_title a = [] then [Missing_source_attribution_field ''title''] else [],
                      if sa_url a = [] then [Missing_source_attribution_field ''url''] else []]);
               es = es @ (if \<not> (0 \<le> confidence_score c \<and> confidence_score c \<le> 1)
                          then [Confidence_score_out_of_range] else []);
               es = es @ url_errors
           in Inr \<lparr> passed = (es = []), score = (if es = [] then 1 else 0),
                    errors = es, warnings = [] \<rparr>)))"

subsection \<open>\<open>_validate_content_quality\<close>\<close>

text \<open>The loop over the suspicious patterns stops at the first match (\<open>break\<close>).\<close>

fun scan_suspicious :: "pattern list \<Rightarrow> string \<Rightarrow> check \<Rightarrow> check" where
  "scan_suspicious [] s k = k"
| "scan_suspicious (p # ps) s k =
     (if re_search p s then add_error (Suspicious_content_pattern p) 0.2 k
      else scan_suspicious ps s k)"

definition unique_sentences :: "string \<Rightarrow> nat" where
  "unique_sentences s = length (remdups (str_split CHR ''.'' s))"

definition total_sentences :: "string \<Rightarrow> nat" where
  "total_sentences s = length (str_split CHR ''.'' s)"

definition text_chars :: "string \<Rightarrow> nat" where
  "text_chars s = length (filter (\<lambda>c. is_alpha c \<or> is_space c) s)"

definition repetitive :: "string \<Rightarrow> bool" where
  "repetitive s = (total_sentences s > 10
     \<and> real (unique_sentences s) / real (total_sentences s) < 0.5)"

definition quality_check :: "ScrapedContent \<Rightarrow> check" where
  "quality_check c =
     (let k = ([], [], 1);
          k = on (length (content c) < min_content_length)
                (add_error (Content_too_short (length (content c))) 0.3) k;
          k = on (length (content c) > max_content_length)
                (add_warning (Content_very_long (length (content c))) 0.9) k;
          k = on (length (title c) < min_title_length)
                (add_error (Title_too_short (length (title c))) 0.5) k;
          k = on (length (title c) > max_title_length)
                (add_warning Title_very_long 0.9) k;
          k = scan_suspicious suspicious_patterns (str_lower (content c)) k;
          k = on (repetitive (content c)) (add_warning Content_appears_repetitive 0.8) k
      in k)"

text \<open>
  The text ratio divides by \<open>len(content.content)\<close>: on an empty body that is a
  \<open>ZeroDivisionError\<close>, raised after the checks above have run.
\<close>

definition low_text_ratio :: "string \<Rightarrow> bool" where
  "low_text_ratio s = (real (text_chars s) / real (length s) < 0.6)"

definition validate_content_quality :: "ScrapedContent \<Rightarrow> py_error + ValidationResult" where
  "validate_content_quality c =
     (let k = quality_check c in
      if length (content c) = 0 then Inl ZeroDivisionError
      else Inr (result_of (on (low_text_ratio (content c))
                  (add_warning Low_text_content_ratio 0.9) k)))"

subsection \<open>\<open>_validate_source_attribution\<close>\<close>

definition validate_source_attribution ::
  "pylib \<Rightarrow> SourceAttribution option \<Rightarrow> py_error + ValidationResult" where
  "validate_source_attribution L att =
     (case att of
        None \<Rightarrow> Inr \<lparr> passed = False, score = 0, errors = [Missing_source_attribution],
                       warnings = [] \<rparr>
      | Some a \<Rightarrow>
     (case check_url L (sa_url a) Invalid_attribution_URL of
        Inl e \<Rightarrow> Inl e
      | Inr url_errors \<Rightarrow>
          (let k = ([], [], 1);
               k = on (source a \<notin> set valid_sources) (add_warning (Unknown_source (source a)) 0.9) k;
               citation = to_citation_format a;
               k = on (length citation < 10) (add_error Citation_format_too_short 1) k;
               k = on (length citation > 150) (add_warning Citation_format_very_long 0.9) k;
               k = on (url_errors \<noteq> []) (add_error Invalid_attribution_URL 1) k;
               k = on (case publication_date a of None \<Rightarrow> False
                       | Some d \<Rightarrow> d \<noteq> [] \<and> \<not> fromisoformat_ok L (str_replace CHR ''Z'' ''+00:00'' d))
                     (add_warning Invalid_publication_date_format 0.9) k
           in Inr (result_of k))))"

subsection \<open>\<open>_validate_music_relevance\<close>\<close>

definition music_mentions :: "ScrapedContent \<Rightarrow> nat" where
  "music_mentions c =
     length (filter (\<lambda>keyword. str_in keyword (str_lower (title c @ '' '' @ content c)))
       music_keywords)"

definition validate_music_relevance :: "ScrapedContent \<Rightarrow> ValidationResult" where
  "validate_music_relevance c =
     (let k = ([], [], 1);
          k = (if music_mentions c = 0 then add_warning No_music_keywords 0.5 k
               else if music_mentions c < 3 then add_warning Limited_music_relevance 0.8 k
               else k)
      in (result_of k)\<lparr> passed := True \<rparr>)"

subsection \<open>\<open>_validate_data_lake_compatibility\<close>\<close>

text \<open>
  Everything here runs inside \<open>try\<close>: an exception of \<open>to_v3_format\<close> or of the JSON
  round trip gives the incompatible result. The v3 form always has the three required
  fields, and its attribution is a dictionary, so of the checks after the round trip
  only the citation's prefix is left.
\<close>

definition validate_data_lake_compatibility ::
  "pylib \<Rightarrow> ScrapedContent \<Rightarrow> DataLakeCompatibilityCheck" where
  "validate_data_lake_compatibility L c =
     (case to_v3_format c of
        Inl e \<Rightarrow> \<lparr> compatible = False, format_version = ''v3'', schema_valid = False,
                   citation_quality = 0, processing_safe = False,
                   dl_errors = [Data_lake_compatibility_test_failed] \<rparr>
      | Inr d \<Rightarrow>
          if \<not> json_ok L c
          then \<lparr> compatible = False, format_version = ''v3'', schema_valid = False,
                 citation_quality = 0, processing_safe = False,
                 dl_errors = [Data_lake_compatibility_test_failed] \<rparr>
          else
            (let es = (case source_attribution c of
                         None \<Rightarrow> []
                       | Some a \<Rightarrow>
                           if \<not> startswith (to_citation_format a) ''[Source:''
                           then [Invalid_citation_format] else [])
             in \<lparr> compatible = (es = []), format_version = ''v3'', schema_valid = (es = []),
                   citation_quality = (if es = [] then 1 else 0.5), processing_safe = True,
                   dl_errors = es \<rparr>))"

subsection \<open>\<open>validate_scraped_content\<close>\<close>

definition validate_scraped_content ::
  "pylib \<Rightarrow> ScrapedContent \<Rightarrow> py_error + ValidationResult" where
  "validate_scraped_content L c =
     (case validate_structure L c of
        Inl e \<Rightarrow> Inl e
      | Inr structure_result \<Rightarrow>
     (case validate_content_quality c of
        Inl e \<Rightarrow> Inl e
      | Inr quality_result \<Rightarrow>
     (case validate_source_attribution L (source_attribution c) of
        Inl e \<Rightarrow> Inl e
      | Inr attribution_result \<Rightarrow>
          (let es = []; ws = []; s = 1;
               (es, s) = (if \<not> passed structure_result
                          then (es @ errors structure_result, s * 0.3) else (es, s));
               s = s * score quality_result;
               ws = ws @ warnings quality_result;
               es = (if \<not> passed quality_result then es @ errors quality_result else es);
               s = s * score attribution_result;
               es = (if \<not> passed attribution_result then es @ errors attribution_result else es);
               relevance_result = validate_music_relevance c;
               s = s * score relevance_result;
               ws = ws @ warnings relevance_result;
               compatibility_result = validate_data_lake_compatibility L c;
               (es, s) = (if \<not> compatible compatibility_result
                          then (es @ dl_errors compatibility_result, s * 0.2) else (es, s))
           in Inr \<lparr> passed = (es = [] \<and> s > 0.5), score = s, errors = es, warnings = ws \<rparr>))))"

subsection \<open>\<open>validate_batch\<close>\<close>

text \<open>
  The loop over the items, with the index \<open>i\<close> of \<open>enumerate\<close>: it collects the item
  scores, counts the items that did not pass and prefixes their messages. An item
  whose validation raises ends the loop with that exception.
\<close>

record batch_loop =
  item_scores :: "real list"
  total_errors :: nat
  bl_errors :: "msg list"
  bl_warnings :: "msg list"

fun validate_items ::
  "pylib \<Rightarrow> nat \<Rightarrow> ScrapedContent list \<Rightarrow> batch_loop \<Rightarrow> py_error + batch_loop" where
  "validate_items L i [] st = Inr st"
| "validate_items L i (item # items) st =
     (case validate_scraped_content L item of
        Inl e \<Rightarrow> Inl e
      | Inr result \<Rightarrow>
          validate_items L (Suc i) items
            \<lparr> item_scores = item_scores st @ [score result],
              total_errors = (if \<not> passed result then total_errors st + 1 else total_errors st),
              bl_errors = (if \<not> passed result
                           then bl_errors st @ map (Item i) (errors result) else bl_errors st),
              bl_warnings = bl_warnings st @ map (Item i) (warnings result) \<rparr>)"

definition validate_batch :: "pylib \<Rightarrow> ScrapingBatch \<Rightarrow> py_error + ValidationResult" where
  "validate_batch L batch =
     (if content_items batch = []
      then Inr \<lparr> passed = False, score = 0, errors = [Batch_contains_no_content_items],
                 warnings = [] \<rparr>
      else
        (case validate_items L 0 (content_items batch)
                \<lparr> item_scores = [], total_errors = 0, bl_errors = [], bl_warnings = [] \<rparr> of
           Inl e \<Rightarrow> Inl e
         | Inr st \<Rightarrow>
             (let avg_score = (if item_scores st \<noteq> []
                               then sum_list (item_scores st) / real (length (item_scores st))
                               else 0);
                  n = length (content_items batch);
                  rate = (real n - real (total_errors st)) / real n;
                  es = bl_errors st;
                  es = (if rate < 0.7 then es @ [Batch_success_rate_too_low rate] else es);
                  es = (if avg_score < 0.6 then es @ [Batch_average_quality_too_low avg_score]
                        else es)
              in Inr \<lparr> passed = (es = []), score = avg_score * rate, errors = es,
                       warnings = bl_warnings st \<rparr>)))"

section \<open>Safety gate (\<open>SafetyChecker.pre_processing_safety_check\<close>)\<close>

definition batch_sources :: "ScrapingBatch \<Rightarrow> string list" where
  "batch_sources batch =
     remdups (concat (map (\<lambda>item. case source_attribution item of
                                     None \<Rightarrow> [] | Some a \<Rightarrow> [source a])
                          (content_items batch)))"

definition pre_processing_safety_check ::
  "pylib \<Rightarrow> ScrapingBatch \<Rightarrow> py_error + (bool \<times> msg list)" where
  "pre_processing_safety_check L batch =
     (case validate_batch L batch of
        Inl e \<Rightarrow> Inl e
      | Inr batch_result \<Rightarrow>
          (let es = (if \<not> passed batch_result then errors batch_result else []);
               es = (if length (content_items batch) > 100
                     then es @ [Batch_too_large (length (content_items batch))] else es);
               es = (if length (batch_sources batch) > 1
                     then es @ [Mixed_sources_in_single_batch] else es)
           in Inr (es = [], es)))"

section \<open>Artifact placer (shared/s3_uploader.py)\<close>

text \<open>
  The object store: the set of keys that exist, and the calls that fail. \<open>head_fails k\<close>
  says that \<open>head_object\<close> on \<open>k\<close> raises a \<open>ClientError\<close> other than 404,
  \<open>put_fails k\<close> that \<open>put_object\<close> on \<open>k\<close> raises, \<open>client_fails\<close> that the client
  cannot be made (\<open>_get_s3_client\<close> raises).
\<close>

record s3 =
  s3_keys :: "string set"
  head_fails :: "string \<Rightarrow> bool"
  put_fails :: "string \<Rightarrow> bool"
  client_fails :: bool

definition key_exists :: "s3 \<Rightarrow> string \<Rightarrow> py_error + bool" where
  "key_exists S k = (if head_fails S k then Inl ClientError else Inr (k \<in> s3_keys S))"

definition put_object :: "s3 \<Rightarrow> string \<Rightarrow> py_error + s3" where
  "put_object S k =
     (if put_fails S k then Inl ClientError else Inr (S\<lparr> s3_keys := insert k (s3_keys S) \<rparr>))"

subsection \<open>Deriving the key\<close>

definition is_digit :: "char \<Rightarrow> bool" where
  "is_digit c = (48 \<le> (of_char c :: nat) \<and> (of_char c :: nat) \<le> 57)"

definition is_lower :: "char \<Rightarrow> bool" where
  "is_lower c = (97 \<le> (of_char c :: nat) \<and> (of_char c :: nat) \<le> 122)"

definition str_strip :: "(char \<Rightarrow> bool) \<Rightarrow> string \<Rightarrow> string" where
  "str_strip P s = rev (dropWhile P (rev (dropWhile P s)))"

text \<open>\<open>sub_ws False s\<close> is \<open>re.sub(r'\s+', '_', s)\<close>; the flag says the run has begun.\<close>

fun sub_ws :: "bool \<Rightarrow> string \<Rightarrow> string" where
  "sub_ws prev [] = []"
| "sub_ws prev (c # cs) =
     (if is_space c then (if prev then [] else ''_'') @ sub_ws True cs
      else c # sub_ws False cs)"

definition sanitize_artist_name :: "string \<Rightarrow> string" where
  "sanitize_artist_name artist =
     (let sanitized = filter (\<lambda>c. is_lower c \<or> is_digit c \<or> is_space c) (str_lower artist);
          sanitized = sub_ws False (str_strip is_space sanitized);
          sanitized = str_strip (\<lambda>c. c = CHR ''_'') (take 50 sanitized)
      in if sanitized = [] then ''unknown_artist'' else sanitized)"

definition extract_artist_name :: "pylib \<Rightarrow> ScrapedContent \<Rightarrow> string" where
  "extract_artist_name L c =
     (case search_artist_patterns L (title c) of
        Some artist \<Rightarrow> sanitize_artist_name artist
      | None \<Rightarrow>
          (case search_artist_mention L (str_lower (take 500 (content c))) of
             Some artist \<Rightarrow> sanitize_artist_name artist
           | None \<Rightarrow>
               (let src = (case source_attribution c of
                             None \<Rightarrow> ''unknown'' | Some a \<Rightarrow> source a)
                in sanitize_artist_name (''various_'' @ str_lower src))))"

definition thematic_categories :: "(string \<times> string list) list" where
  "thematic_categories =
     [(''review'', [''review'', ''album review'', ''music review'', ''rating'']),
      (''interview'', [''interview'', ''q&a'', ''talks about'', ''conversation with'']),
      (''news'', [''news'', ''breaking'', ''announces'', ''released'', ''signs'']),
      (''feature'', [''feature'', ''profile'', ''story'', ''deep dive'']),
      (''analysis'', [''analysis'', ''breakdown'', ''explained'', ''history of'']),
      (''podcast'', [''podcast'', ''episode'', ''fresh air'', ''sound opinions''])]"

definition categorize_content :: "ScrapedContent \<Rightarrow> string" where
  "categorize_content c =
     (let text = str_lower (title c @ '' '' @ take 500 (content c))
      in case find (\<lambda>(category, patterns). list_ex (\<lambda>p. str_in p text) patterns)
                thematic_categories of
           Some (category, patterns) \<Rightarrow> category
         | None \<Rightarrow> ContentType_value (content_type c))"

definition generate_safe_filename :: "ScrapedContent \<Rightarrow> string" where
  "generate_safe_filename c =
     (let t = scraped_at c;
          timestamp = zfill 4 (dt_year t) @ zfill 2 (dt_month t) @ zfill 2 (dt_day t)
            @ ''_'' @ zfill 2 (dt_hour t) @ zfill 2 (dt_minute t);
          hash = (case content_hash c of
                    None \<Rightarrow> ''unknown''
                  | Some h \<Rightarrow> if h = [] then ''unknown'' else take 8 h);
          title_part = filter (\<lambda>c. is_alpha c \<or> is_digit c \<or> is_space c) (title c);
          title_part = take 30 (sub_ws False (str_strip is_space title_part));
          src = (case source_attribution c of
                   None \<Rightarrow> ''unknown''
                 | Some a \<Rightarrow> str_replace CHR '' '' ''_'' (str_lower (source a)))
      in src @ ''_'' @ timestamp @ ''_'' @ hash @ ''_'' @ title_part @ ''.json'')"

definition derived_key :: "pylib \<Rightarrow> ScrapedContent \<Rightarrow> string" where
  "derived_key L c =
     ''scraped-content/'' @ extract_artist_name L c @ ''/'' @ categorize_content c
       @ ''/'' @ generate_safe_filename c"

subsection \<open>\<open>_generate_unique_key\<close>\<close>

text \<open>
  \<open>rsplit1 s\<close> is \<open>s.rsplit('.', 1)\<close> unpacked into two names: without a dot the
  unpacking raises \<open>ValueError\<close>.
\<close>

definition rsplit1 :: "string \<Rightarrow> py_error + (string \<times> string)" where
  "rsplit1 s =
     (if CHR ''.'' \<in> set s
      then Inr (rev (tl (dropWhile (\<lambda>c. c \<noteq> CHR ''.'') (rev s))),
                rev (takeWhile (\<lambda>c. c \<noteq> CHR ''.'') (rev s)))
      else Inl ValueError)"

definition suffixed_key :: "string \<Rightarrow> string \<Rightarrow> nat \<Rightarrow> string" where
  "suffixed_key base_name extension counter =
     base_name @ ''_'' @ zfill 3 counter @ ''.'' @ extension"

definition timestamp_key :: "string \<Rightarrow> string \<Rightarrow> datetime \<Rightarrow> string" where
  "timestamp_key base_name extension t =
     base_name @ ''_'' @ zfill 4 (dt_year t) @ zfill 2 (dt_month t) @ zfill 2 (dt_day t)
       @ ''_'' @ zfill 2 (dt_hour t) @ zfill 2 (dt_minute t) @ zfill 2 (dt_second t)
       @ ''.'' @ extension"

text \<open>
  The \<open>while counter < 100\<close> loop: the first suffixed key that does not exist, \<open>None\<close>
  when the loop runs out.
\<close>

function unique_key_loop ::
  "s3 \<Rightarrow> string \<Rightarrow> string \<Rightarrow> nat \<Rightarrow> py_error + string option" where
  "unique_key_loop S base_name extension counter =
     (if counter < 100
      then (case key_exists S (suffixed_key base_name extension counter) of
              Inl e \<Rightarrow> Inl e
            | Inr False \<Rightarrow> Inr (Some (suffixed_key base_name extension counter))
            | Inr True \<Rightarrow> unique_key_loop S base_name extension (counter + 1))
      else Inr None)"
  by pat_completeness auto
termination
  by (relation "measure (\<lambda>(S, b, e, counter). 100 - counter)") auto

definition generate_unique_key :: "s3 \<Rightarrow> datetime \<Rightarrow> string \<Rightarrow> py_error + string" where
  "generate_unique_key S now base_key =
     (case rsplit1 base_key of
        Inl e \<Rightarrow> Inl e
      | Inr (base_name, extension) \<Rightarrow>
          (case unique_key_loop S base_name extension 1 of
             Inl e \<Rightarrow> Inl e
           | Inr (Some unique_key) \<Rightarrow> Inr unique_key
           | Inr None \<Rightarrow> Inr (timestamp_key base_name extension now)))"

subsection \<open>\<open>_upload_content_item\<close>\<close>

text \<open>
  One upload, at clock reading \<open>now\<close>: the key it returns (\<open>None\<close> when the write
  failed), the record as the upload leaves it, and the store. An exception of the
  existence check or of \<open>to_v3_format\<close> leaves the function; one of \<open>put_object\<close> is
  caught.
\<close>

definition upload_content_item ::
  "pylib \<Rightarrow> s3 \<Rightarrow> datetime \<Rightarrow> ScrapedContent
     \<Rightarrow> py_error + (string option \<times> ScrapedContent \<times> s3)" where
  "upload_content_item L S now c =
     (case key_exists S (derived_key L c) of
        Inl e \<Rightarrow> Inl e
      | Inr ex \<Rightarrow>
     (case (if ex then generate_unique_key S now (derived_key L c)
            else Inr (derived_key L c)) of
        Inl e \<Rightarrow> Inl e
      | Inr key \<Rightarrow>
     (case to_v3_format c of
        Inl e \<Rightarrow> Inl e
      | Inr upload_data \<Rightarrow>
          (case put_object S key of
             Inl e \<Rightarrow> Inr (None, c, S)
           | Inr S' \<Rightarrow> Inr (Some key, c\<lparr> s3_key := Some key \<rparr>, S')))))"

subsection \<open>\<open>upload_batch\<close>\<close>

datatype upload_error = Item_failed nat py_error | Manifest_upload_failed py_error

record upload_results =
  ur_batch_id :: string
  total_items :: nat
  successful_uploads :: nat
  failed_uploads :: nat
  uploaded_keys :: "string list"
  upload_errors :: "upload_error list"
  manifest_key :: "string option"

text \<open>
  The loop over the items: item \<open>i\<close> is uploaded at clock reading \<open>clock i\<close>. The
  items are objects of the batch, so the loop returns them as the uploads left them.
\<close>

fun upload_items ::
  "pylib \<Rightarrow> (nat \<Rightarrow> datetime) \<Rightarrow> nat \<Rightarrow> ScrapedContent list
     \<Rightarrow> (upload_results \<times> ScrapedContent list \<times> s3)
     \<Rightarrow> (upload_results \<times> ScrapedContent list \<times> s3)" where
  "upload_items L clock i [] st = st"
| "upload_items L clock i (item # items) (r, acc, S) =
     upload_items L clock (Suc i) items
       (case upload_content_item L S (clock i) item of
          Inl e \<Rightarrow>
            (r\<lparr> failed_uploads := failed_uploads r + 1,
                upload_errors := upload_errors r @ [Item_failed (i + 1) e] \<rparr>,
             acc @ [item], S)
        | Inr (None, item', S') \<Rightarrow>
            (r\<lparr> failed_uploads := failed_uploads r + 1 \<rparr>, acc @ [item'], S')
        | Inr (Some key, item', S') \<Rightarrow>
            if key = [] then (r\<lparr> failed_uploads := failed_uploads r + 1 \<rparr>, acc @ [item'], S')
            else (r\<lparr> successful_uploads := successful_uploads r + 1,
                      uploaded_keys := uploaded_keys r @ [key] \<rparr>,
                  acc @ [item'], S'))"

definition manifest_key_of :: "ScrapingBatch \<Rightarrow> string" where
  "manifest_key_of batch =
     (let t = created_at batch;
          date_str = zfill 4 (dt_year t) @ ''/'' @ zfill 2 (dt_month t) @ ''/''
            @ zfill 2 (dt_day t);
          source_name = (case batch_source batch of
                           None \<Rightarrow> ''unknown'' | Some src \<Rightarrow> Source_value src)
      in ''manifests/scraped/'' @ source_name @ ''/'' @ date_str @ ''/batch_''
           @ batch_id batch @ ''.json'')"

definition upload_batch ::
  "pylib \<Rightarrow> s3 \<Rightarrow> (nat \<Rightarrow> datetime) \<Rightarrow> ScrapingBatch
     \<Rightarrow> py_error + (upload_results \<times> ScrapingBatch \<times> s3)" where
  "upload_batch L S clock batch =
     (if client_fails S then Inl ClientError
      else
        (let r0 = \<lparr> ur_batch_id = batch_id batch, total_items = length (content_items batch),
                     successful_uploads = 0, failed_uploads = 0, uploaded_keys = [],
                     upload_errors = [], manifest_key = None \<rparr>;
             (r, items, S1) = upload_items L clock 0 (content_items batch) (r0, [], S);
             batch' = batch\<lparr> content_items := items \<rparr>
         in case put_object S1 (manifest_key_of batch') of
              Inl e \<Rightarrow>
                Inr (r\<lparr> upload_errors := upload_errors r @ [Manifest_upload_failed e] \<rparr>,
                     batch', S1)
            | Inr S2 \<Rightarrow>
                Inr (r\<lparr> manifest_key := Some (manifest_key_of batch') \<rparr>, batch', S2)))"


section \<open>Fetcher (shared/fetcher.py)\<close>

record FetchResult =
  fr_success :: bool
  fr_content :: "string option"
  status_code :: "nat option"
  fr_url :: string
  final_url :: string
  fr_method :: string
  error_message :: "string option"
  fr_metadata :: "(string \<times> string) list"

text \<open>
  The four strategies of \<open>fetch_with_fallbacks\<close>, in the order of its list. Each is a
  coroutine that talks to the network: what it does on a URL, the result it returns or
  the exception it raises, is the parameter \<open>net\<close>.
\<close>

datatype fetch_strategy =
  fetch_direct | fetch_via_archive_ph | fetch_via_archive_org | fetch_via_google_cache

definition fetch_strategies :: "fetch_strategy list" where
  "fetch_strategies =
     [fetch_direct, fetch_via_archive_ph, fetch_via_archive_org, fetch_via_google_cache]"

type_synonym network = "fetch_strategy \<Rightarrow> string \<Rightarrow> py_error + FetchResult"

text \<open>
  \<open>result.success and result.content and len(result.content) > 500\<close>: the test that
  ends the loop.
\<close>

definition fetch_accepted :: "FetchResult \<Rightarrow> bool" where
  "fetch_accepted result =
     (fr_success result
      \<and> (case fr_content result of None \<Rightarrow> False | Some t \<Rightarrow> t \<noteq> [] \<and> length t > 500))"

definition all_strategies_failed :: "string \<Rightarrow> FetchResult" where
  "all_strategies_failed u =
     \<lparr> fr_success = False, fr_content = None, status_code = None, fr_url = u,
       final_url = [], fr_method = ''none'',
       error_message = Some ''All fetch strategies failed'', fr_metadata = [] \<rparr>"

text \<open>
  The loop with its \<open>try\<close>: an exception of a strategy is logged and the loop goes on.
  The function has no statement outside the loop that can raise; its result type keeps
  the exception case so that this is a theorem and not a convention.
\<close>

fun fetch_loop :: "network \<Rightarrow> fetch_strategy list \<Rightarrow> string \<Rightarrow> py_error + FetchResult" where
  "fetch_loop net [] u = Inr (all_strategies_failed u)"
| "fetch_loop net (strategy # rest) u =
     (case net strategy u of
        Inl e \<Rightarrow> fetch_loop net rest u
      | Inr result \<Rightarrow> if fetch_accepted result then Inr result else fetch_loop net rest u)"

definition fetch_with_fallbacks :: "network \<Rightarrow> string \<Rightarrow> py_error + FetchResult" where
  "fetch_with_fallbacks net u = fetch_loop net fetch_strategies u"

section \<open>Extractor (shared/extractor.py)\<close>

record ExtractionResult =
  er_success :: bool
  er_content :: "ScrapedContent option"
  confidence :: real
  er_method :: string
  er_errors :: "string list"

text \<open>
  What the parsing of a strategy finds in the document (\<open>content_data\<close>), or the
  exception it raises, is a parameter: BeautifulSoup and the JSON-LD reader are
  libraries. What a strategy makes of the fields found is modelled below.
\<close>

record content_data =
  cd_title :: "string option"
  cd_content :: "string option"
  cd_author :: "string option"
  cd_date :: "string option"

datatype extract_strategy =
  extract_structured_data | extract_semantic_content | extract_generic_content
  | extract_fallback_content

definition extract_strategies :: "extract_strategy list" where
  "extract_strategies =
     [extract_structured_data, extract_semantic_content, extract_generic_content,
      extract_fallback_content]"

type_synonym parser = "extract_strategy \<Rightarrow> string \<Rightarrow> string \<Rightarrow> py_error + content_data"

definition content_type_patterns :: "(ContentType \<times> string list) list" where
  "content_type_patterns =
     [(REVIEW, [''review'', ''album review'', ''music review'', ''rating'']),
      (INTERVIEW, [''interview'', ''q&a'', ''talks about'', ''conversation with'']),
      (NEWS, [''news'', ''breaking'', ''announces'', ''released'']),
      (PODCAST_TRANSCRIPT, [''transcript'', ''fresh air'', ''npr''])]"

definition detect_content_type :: "string \<Rightarrow> string \<Rightarrow> string \<Rightarrow> ContentType" where
  "detect_content_type t body u =
     (let title_lower = str_lower t; content_lower = str_lower body; url_lower = str_lower u
      in case find (\<lambda>(ct, patterns). list_ex (\<lambda>p. str_in p title_lower \<or> str_in p url_lower
                        \<or> str_in p (take 500 content_lower)) patterns)
                content_type_patterns of
           Some (ct, patterns) \<Rightarrow> ct
         | None \<Rightarrow> ARTICLE)"

definition truthy :: "string option \<Rightarrow> bool" where
  "truthy v = (case v of None \<Rightarrow> False | Some s \<Rightarrow> s \<noteq> [])"

definition or_empty :: "string option \<Rightarrow> string" where
  "or_empty v = (case v of None \<Rightarrow> [] | Some s \<Rightarrow> s)"

definition build_scraped_content ::
  "pylib \<Rightarrow> datetime \<Rightarrow> content_data \<Rightarrow> string \<Rightarrow> string \<Rightarrow> ScrapedContent" where
  "build_scraped_content L now d u source_name =
     (let t = or_empty (cd_title d);
          content_text = or_empty (cd_content d);
          ct = detect_content_type t content_text u;
          att = \<lparr> source = source_name, sa_title = t, sa_url = u, author = cd_author d,
                  publication_date = cd_date d,
                  publication_type = (if ct = PODCAST_TRANSCRIPT then ''podcast'' else ''article''),
                  sa_content_type = Some (ContentType_value ct), episode_info = None \<rparr>
      in post_init L
           \<lparr> sc_id = new_ulid L u, url = u, title = t, content = content_text,
             content_type = ct, source_attribution = Some att, scraped_at = now,
             confidence_score = 0.8, word_count = 0, extraction_method = ''unknown'',
             validation_passed = (length content_text > 200 \<and> length t > 5),
             s3_key = None, content_hash = None \<rparr>)"

text \<open>
  The acceptance test of each strategy on the fields found, its confidence and its
  method tag.
\<close>

fun strategy_accepts :: "extract_strategy \<Rightarrow> content_data \<Rightarrow> bool" where
  "strategy_accepts extract_structured_data d = (truthy (cd_title d) \<and> truthy (cd_content d))"
| "strategy_accepts extract_semantic_content d =
     (truthy (cd_title d) \<and> truthy (cd_content d) \<and> length (or_empty (cd_content d)) > 200)"
| "strategy_accepts extract_generic_content d =
     (truthy (cd_title d) \<and> truthy (cd_content d))"
| "strategy_accepts extract_fallback_content d =
     (cd_content d \<noteq> None \<and> length (or_empty (cd_content d)) > 300)"

fun strategy_confidence :: "extract_strategy \<Rightarrow> real" where
  "strategy_confidence extract_structured_data = 0.9"
| "strategy_confidence extract_semantic_content = 0.8"
| "strategy_confidence extract_generic_content = 0.6"
| "strategy_confidence extract_fallback_content = 0.3"

fun strategy_method :: "extract_strategy \<Rightarrow> string" where
  "strategy_method extract_structured_data = ''structured_data''"
| "strategy_method extract_semantic_content = ''semantic''"
| "strategy_method extract_generic_content = ''generic''"
| "strategy_method extract_fallback_content = ''fallback''"

definition run_strategy ::
  "pylib \<Rightarrow> datetime \<Rightarrow> parser \<Rightarrow> extract_strategy \<Rightarrow> string \<Rightarrow> string \<Rightarrow> string
     \<Rightarrow> py_error + ExtractionResult" where
  "run_strategy L now parse strategy html u source_name =
     (case parse strategy html u of
        Inl e \<Rightarrow> Inl e
      | Inr d \<Rightarrow>
          if strategy_accepts strategy d
          then Inr \<lparr> er_success = True,
                     er_content = Some (build_scraped_content L now d u source_name),
                     confidence = strategy_confidence strategy,
                     er_method = strategy_method strategy, er_errors = [] \<rparr>
          else Inr \<lparr> er_success = False, er_content = None, confidence = 0,
                     er_method = strategy_method strategy, er_errors = [] \<rparr>)"

text \<open>
  The cascade. Its state is \<open>best_result\<close> and \<open>best_confidence\<close>; \<open>invoked\<close> records
  the strategies called, in order, which the source does not keep. An exception of a
  strategy is logged and the loop goes on; \<open>result.confidence > 0.8\<close> is the \<open>break\<close>.
\<close>

record cascade =
  best_result :: "ExtractionResult option"
  best_confidence :: real
  invoked :: "extract_strategy list"

fun extract_loop ::
  "(extract_strategy \<Rightarrow> py_error + ExtractionResult) \<Rightarrow> extract_strategy list
     \<Rightarrow> cascade \<Rightarrow> cascade" where
  "extract_loop run [] st = st"
| "extract_loop run (strategy # rest) st =
     (case run strategy of
        Inl e \<Rightarrow> extract_loop run rest (st\<lparr> invoked := invoked st @ [strategy] \<rparr>)
      | Inr result \<Rightarrow>
          (let st = st\<lparr> invoked := invoked st @ [strategy] \<rparr>;
               st = (if er_success result \<and> confidence result > best_confidence st
                     then st\<lparr> best_result := Some result, best_confidence := confidence result \<rparr>
                     else st)
           in if confidence result > 0.8 then st else extract_loop run rest st))"

definition extraction_failed :: "string \<Rightarrow> ExtractionResult" where
  "extraction_failed why =
     \<lparr> er_success = False, er_content = None, confidence = 0, er_method = ''unknown'',
       er_errors = [why] \<rparr>"

definition extract_cascade ::
  "pylib \<Rightarrow> datetime \<Rightarrow> parser \<Rightarrow> string \<Rightarrow> string \<Rightarrow> string \<Rightarrow> cascade" where
  "extract_cascade L now parse html u source_name =
     extract_loop (\<lambda>strategy. run_strategy L now parse strategy html u source_name)
       extract_strategies \<lparr> best_result = None, best_confidence = 0, invoked = [] \<rparr>"

text \<open>
  \<open>extract_content\<close>, with the strategies it called. The guard on the length comes
  first; the document is then parsed, outside any \<open>try\<close>, and the cascade runs on the
  parsed document.
\<close>

definition extract_content_traced ::
  "pylib \<Rightarrow> datetime \<Rightarrow> parser \<Rightarrow> string \<Rightarrow> string \<Rightarrow> string
     \<Rightarrow> py_error + (ExtractionResult \<times> extract_strategy list)" where
  "extract_content_traced L now parse html u source_name =
     (if html = [] \<or> length html < 100
      then Inr (extraction_failed ''HTML content too short or empty'', [])
      else
        (case soup_error L html of
           Some e \<Rightarrow> Inl e
         | None \<Rightarrow>
             (let st = extract_cascade L now parse html u source_name
              in Inr (case best_result st of
                        None \<Rightarrow> extraction_failed ''All extraction strategies failed''
                      | Some result \<Rightarrow> result,
                      invoked st))))"

definition extract_content ::
  "pylib \<Rightarrow> datetime \<Rightarrow> parser \<Rightarrow> string \<Rightarrow> string \<Rightarrow> string
     \<Rightarrow> py_error + ExtractionResult" where
  "extract_content L now parse html u source_name =
     (case extract_content_traced L now parse html u source_name of
        Inl e \<Rightarrow> Inl e
      | Inr (result, called) \<Rightarrow> Inr result)"

section \<open>Pipeline orchestrator (articles/base_scraper.py)\<close>

record ScraperConfig =
  source_name :: string
  base_url :: string
  rate_limit :: real
  max_articles_per_run :: int
  content_discovery_urls :: "string list"
  archive_bypass_enabled :: bool
  validation_required :: bool

datatype stat_error =
    Validation_error msg
  | Safety_error msg
  | Upload_warning upload_error
  | S3_upload_failed_for_all_items
  | S3_upload_exception py_error
  | Scraping_exception py_error

record stats =
  discovered :: nat
  fetched :: nat
  extracted :: nat
  validated :: nat
  uploaded :: nat
  stat_errors :: "stat_error list"

text \<open>
  The collaborators of one run: what \<open>discover_content_urls\<close> of the subclass does
  (the URLs it returns, or the exception it raises), the network, the parsing, the
  enhancement hook, the object store, and the clock and identifiers the run draws.
\<close>

record world =
  w_discover :: "py_error + string list"
  w_net :: network
  w_parse :: parser
  w_enhance :: "ScrapedContent \<Rightarrow> FetchResult \<Rightarrow> ExtractionResult \<Rightarrow> py_error + ScrapedContent"
  w_store :: s3
  w_clock :: "nat \<Rightarrow> datetime"
  w_utcnow :: datetime
  w_new_batch_id :: string

text \<open>The hook as \<open>BaseArticleScraper\<close> defines it; a subclass may override it.\<close>

definition enhance_extracted_content ::
  "ScrapedContent \<Rightarrow> FetchResult \<Rightarrow> ExtractionResult \<Rightarrow> py_error + ScrapedContent" where
  "enhance_extracted_content c fetch_result extraction_result =
     (let c = c\<lparr> extraction_method := er_method extraction_result,
                 confidence_score := confidence extraction_result \<rparr>
      in if fr_metadata fetch_result \<noteq> []
         then (case source_attribution c of
                 None \<Rightarrow> Inl AttributeError
               | Some a \<Rightarrow>
                   Inr (c\<lparr> source_attribution := Some (a\<lparr> publication_type := ''article'' \<rparr>) \<rparr>))
         else Inr c)"

definition is_music_relevant :: "ScrapedContent \<Rightarrow> bool" where
  "is_music_relevant c = (music_mentions c \<ge> 2)"

text \<open>
  \<open>_process_single_url\<close>: the record, if the URL gave one, and whether its fetch was
  counted. Its whole body is inside \<open>try\<close>, so it returns \<open>None\<close> where a step raises.
\<close>

definition process_single_url ::
  "pylib \<Rightarrow> world \<Rightarrow> ScraperConfig \<Rightarrow> string \<Rightarrow> ScrapedContent option \<times> bool" where
  "process_single_url L W config u =
     (case fetch_with_fallbacks (w_net W) u of
        Inl e \<Rightarrow> (None, False)
      | Inr fetch_result \<Rightarrow>
          if \<not> (fr_success fetch_result \<and> truthy (fr_content fetch_result))
          then (None, False)
          else
            (case extract_content L (w_utcnow W) (w_parse W)
                    (or_empty (fr_content fetch_result)) u (source_name config) of
               Inl e \<Rightarrow> (None, True)
             | Inr extraction_result \<Rightarrow>
                 (case er_content extraction_result of
                    None \<Rightarrow> (None, True)
                  | Some c \<Rightarrow>
                      if \<not> er_success extraction_result then (None, True)
                      else (case w_enhance W c fetch_result extraction_result of
                              Inl e \<Rightarrow> (None, True)
                            | Inr enhanced_content \<Rightarrow>
                                if \<not> is_music_relevant enhanced_content then (None, True)
                                else (Some enhanced_content, True)))))"

text \<open>\<open>ScrapingBatch(...)\<close> with its \<open>__post_init__\<close>.\<close>

definition new_batch ::
  "world \<Rightarrow> Source option \<Rightarrow> ScrapedContent list \<Rightarrow> nat \<Rightarrow> ScrapingBatch" where
  "new_batch W src items n_discovered =
     (let t = w_utcnow W;
          date_str = zfill 4 (dt_year t) @ ''/'' @ zfill 2 (dt_month t) @ ''/''
            @ zfill 2 (dt_day t);
          nm = (case src of None \<Rightarrow> ''unknown'' | Some m \<Rightarrow> Source_value m)
      in \<lparr> batch_id = w_new_batch_id W, batch_source = src, content_items = items,
           created_at = t, total_discovered = n_discovered, total_scraped = length items,
           success_rate = (if n_discovered > 0 then real (length items) / real n_discovered
                           else 0),
           manifest_s3_key = Some (''manifests/scraped/'' @ nm @ ''/'' @ date_str @ ''/batch-''
             @ w_new_batch_id W @ ''.json'') \<rparr>)"

definition create_empty_batch ::
  "world \<Rightarrow> ScraperConfig \<Rightarrow> stats \<Rightarrow> py_error + ScrapingBatch" where
  "create_empty_batch W config st =
     (case Source_of (str_lower (source_name config)) of
        Inl e \<Rightarrow> Inl e
      | Inr src \<Rightarrow> Inr (new_batch W (Some src) [] (discovered st)))"

definition source_mapping :: "(string \<times> Source) list" where
  "source_mapping =
     [(''pitchfork'', PITCHFORK), (''npr'', NPR), (''rolling stone'', ROLLING_STONE),
      (''billboard'', BILLBOARD)]"

text \<open>\<open>urls[:n]\<close> for a Python integer \<open>n\<close>.\<close>

definition py_take :: "int \<Rightarrow> 'a list \<Rightarrow> 'a list" where
  "py_take n xs = (if n \<ge> 0 then take (nat n) xs else take (length xs - nat (- n)) xs)"

text \<open>
  Phase 3. The validation of an item can raise; the errors the loop has added to the
  statistics by then stay there.
\<close>

fun validate_phase ::
  "pylib \<Rightarrow> bool \<Rightarrow> ScrapedContent list \<Rightarrow> ScrapedContent list \<times> stat_error list
     \<Rightarrow> py_error option \<times> ScrapedContent list \<times> stat_error list" where
  "validate_phase L required [] (ok, errs) = (None, ok, errs)"
| "validate_phase L required (item # items) (ok, errs) =
     (if required
      then (case validate_scraped_content L item of
              Inl e \<Rightarrow> (Some e, ok, errs)
            | Inr validation_result \<Rightarrow>
                if passed validation_result
                then validate_phase L required items
                       (ok @ [item\<lparr> validation_passed := True,
                                     confidence_score := score validation_result \<rparr>], errs)
                else validate_phase L required items
                       (ok, errs @ map Validation_error (errors validation_result)))
      else validate_phase L required items (ok @ [item], errs))"

text \<open>
  The body of the outer \<open>try\<close>: it returns the batch, the statistics and the store, or
  raises with the statistics as they are then.
\<close>

definition scrape_body ::
  "pylib \<Rightarrow> world \<Rightarrow> ScraperConfig \<Rightarrow> int \<Rightarrow> stats
     \<Rightarrow> (py_error \<times> stats) + (ScrapingBatch \<times> stats \<times> s3)" where
  "scrape_body L W config max_articles st =
     (case w_discover W of
        Inl e \<Rightarrow> Inl (e, st)
      | Inr urls \<Rightarrow>
     (let st = st\<lparr> discovered := length urls \<rparr> in
      if urls = []
      then (case create_empty_batch W config st of
              Inl e \<Rightarrow> Inl (e, st)
            | Inr b \<Rightarrow> Inr (b, st, w_store W))
      else
     (let urls_to_process = py_take max_articles urls;
          results = map (process_single_url L W config) urls_to_process;
          scraped_items = concat (map (\<lambda>(r, f). case r of None \<Rightarrow> [] | Some c \<Rightarrow> [c]) results);
          st = st\<lparr> fetched := fetched st + length (filter snd results),
                   extracted := length scraped_items \<rparr>
      in case validate_phase L (validation_required config) scraped_items ([], stat_errors st) of
           (Some e, validated_items, errs) \<Rightarrow> Inl (e, st\<lparr> stat_errors := errs \<rparr>)
         | (None, validated_items, errs) \<Rightarrow>
     (let st = st\<lparr> stat_errors := errs, validated := length validated_items \<rparr>;
          source_enum = (case map_of source_mapping (str_lower (source_name config)) of
                           None \<Rightarrow> PITCHFORK | Some m \<Rightarrow> m);
          batch = new_batch W (Some source_enum) validated_items (discovered st)
      in case pre_processing_safety_check L batch of
           Inl e \<Rightarrow> Inl (e, st)
         | Inr (is_safe, safety_errors) \<Rightarrow>
             if \<not> is_safe
             then (let st = st\<lparr> stat_errors := stat_errors st @ map Safety_error safety_errors \<rparr>
                   in case create_empty_batch W config st of
                        Inl e \<Rightarrow> Inl (e, st)
                      | Inr b \<Rightarrow> Inr (b, st, w_store W))
             else
               (case upload_batch L (w_store W) (w_clock W) batch of
                  Inl e \<Rightarrow>
                    Inr (batch, st\<lparr> stat_errors := stat_errors st @ [S3_upload_exception e] \<rparr>,
                         w_store W)
                | Inr (upload_results, batch', S') \<Rightarrow>
                    (let st = st\<lparr> uploaded := successful_uploads upload_results \<rparr>;
                         st = (if successful_uploads upload_results > 0
                               then st\<lparr> stat_errors := stat_errors st
                                      @ map Upload_warning (upload_errors upload_results) \<rparr>
                               else st\<lparr> stat_errors := stat_errors st
                                      @ [S3_upload_failed_for_all_items] \<rparr>)
                     in Inr (batch', st, S')))))))"

text \<open>
  \<open>scrape_articles\<close>: the \<open>except Exception\<close> of the outer \<open>try\<close> records the exception
  and returns \<open>_create_empty_batch\<close>, whose own exception nothing catches.
\<close>

definition scrape_articles ::
  "pylib \<Rightarrow> world \<Rightarrow> ScraperConfig \<Rightarrow> int option \<Rightarrow> stats
     \<Rightarrow> py_error + (ScrapingBatch \<times> stats \<times> s3)" where
  "scrape_articles L W config max_articles st =
     (let max_articles = (case max_articles of
                            None \<Rightarrow> max_articles_per_run config
                          | Some n \<Rightarrow> if n = 0 then max_articles_per_run config else n)
      in case scrape_body L W config max_articles st of
           Inr r \<Rightarrow> Inr r
         | Inl (e, st) \<Rightarrow>
             (let st = st\<lparr> stat_errors := stat_errors st @ [Scraping_exception e] \<rparr>
              in case create_empty_batch W config st of
                   Inl e' \<Rightarrow> Inl e'
                 | Inr b \<Rightarrow> Inr (b, st, w_store W)))"

definition initial_stats :: stats where
  "initial_stats = \<lparr> discovered = 0, fetched = 0, extracted = 0, validated = 0, uploaded = 0,
     stat_errors = [] \<rparr>"

section \<open>Example inputs\<close>

text \<open>
  The records of the repository's own test environment (testing/test\_environment.py):
  the article of \<open>_create_test_content\<close> for the source \<open>pitchfork\<close>, and the record of
  \<open>_create_malicious_test_content\<close>. \<open>lib0\<close> gives the library calls their values on
  these inputs.
\<close>

definition test_body :: string where
  "test_body = ''This is a comprehensive test article with sufficient content to pass validation. It discusses musical elements, artist influences, and provides detailed analysis of the creative process. The content is substantial enough to meet minimum length requirements and contains relevant music-related keywords to demonstrate topical relevance.''"

definition malicious_body :: string where
  "malicious_body = ''404 not found please enable javascript captcha''"

definition jazz_body :: string where
  "jazz_body = concat (replicate 30 ''jazz pop '')"

definition chorus_body :: string where
  "chorus_body = concat (replicate 40 (''music'' @ ''.''))"

definition lib0 :: pylib where
  "lib0 = \<lparr>
     urlparse = (\<lambda>u.
       if u = ''https://example.com/pitchfork/test-article''
       then Inr (''https'', ''example.com'')
       else if u = ''https://malicious.example.com/fake''
       then Inr (''https'', ''malicious.example.com'')
       else if u = ''http://[''
       then Inl ValueError
       else Inr ([], [])),
     soup_error = (\<lambda>h. None),
     fromisoformat_ok = (\<lambda>d. d = ''2024-01-15T10:00:00+00:00''),
     json_ok = (\<lambda>c. True),
     sha256_hexdigest = (\<lambda>s.
       if s = jazz_body
       then ''1bb9527af2b74d6a196bcf2fa3c134d4e2fc46570d3f38e65d152e666b6c76bb''
       else if s = test_body
       then ''1cbcb0e106d44b3c5ca21a18d9cb70c2a966bbd4869e875c1cc9fd141f78cb4a''
       else if s = malicious_body
       then ''1be4cca3ed48ebaea08eb1934cd63d80c93252d89fd85763e5ab1de6e25d60df''
       else []),
     new_ulid = (\<lambda>u. ''01HM5ZK8E2Q9X7V4T3R6W1Y0NB''),
     search_artist_patterns = (\<lambda>t. if t = ''Test Article: Musical Analysis''
                                    then Some ''Test Article'' else None),
     search_artist_mention = (\<lambda>s. None) \<rparr>"

definition t0 :: datetime where
  "t0 = \<lparr> dt_year = 2024, dt_month = 1, dt_day = 15, dt_hour = 10, dt_minute = 30,
          dt_second = 7 \<rparr>"

definition test_attribution :: "string \<Rightarrow> string \<Rightarrow> string \<Rightarrow> SourceAttribution" where
  "test_attribution src t u =
     \<lparr> source = src, sa_title = t, sa_url = u,
       author = Some ''Test Author'', publication_date = Some ''2024-01-15T10:00:00Z'',
       publication_type = ''article'', sa_content_type = Some ''review'',
       episode_info = None \<rparr>"

definition test_url :: string where
  "test_url = ''https://example.com/pitchfork/test-article''"

definition make_content :: "string \<Rightarrow> string \<Rightarrow> string \<Rightarrow> ScrapedContent" where
  "make_content src t body =
     post_init lib0
       \<lparr> sc_id = new_ulid lib0 test_url, url = test_url, title = t,
         content = body, content_type = REVIEW,
         source_attribution = Some (test_attribution src t test_url), scraped_at = t0,
         confidence_score = 0.8, word_count = 0, extraction_method = ''unknown'',
         validation_passed = True, s3_key = None, content_hash = None \<rparr>"

definition test_content :: ScrapedContent where
  "test_content = make_content ''Pitchfork'' ''Test Article: Musical Analysis'' test_body"

definition malicious_content :: ScrapedContent where
  "malicious_content =
     post_init lib0
       \<lparr> sc_id = new_ulid lib0 ''https://malicious.example.com/fake'',
         url = ''https://malicious.example.com/fake'', title = ''404'',
         content = malicious_body, content_type = ARTICLE,
         source_attribution = Some
           \<lparr> source = ''Suspicious Source'', sa_title = ''404 Not Found'',
             sa_url = ''https://malicious.example.com/fake'', author = None,
             publication_date = None, publication_type = ''article'',
             sa_content_type = None, episode_info = None \<rparr>,
         scraped_at = t0, confidence_score = 0.1, word_count = 0,
         extraction_method = ''unknown'', validation_passed = False, s3_key = None,
         content_hash = None \<rparr>"

definition test_batch :: "ScrapedContent list \<Rightarrow> ScrapingBatch" where
  "test_batch items =
     \<lparr> batch_id = ''01HM5ZKB00000000000000000A'', batch_source = Some PITCHFORK,
       content_items = items, created_at = t0, total_discovered = 5,
       total_scraped = length items,
       success_rate = real (length items) / 5,
       manifest_s3_key = Some ''manifests/scraped/pitchfork/2024/01/15/batch-01HM5ZKB00000000000000000A.json'' \<rparr>"

text \<open>
  Two documents for the extractor: in one the structured data holds title and body;
  in the other the structured data holds nothing, the semantic parsing raises, and the
  generic and fallback parsings each find a body.
\<close>

definition html0 :: string where
  "html0 = replicate 120 CHR ''x''"

definition parse_structured :: parser where
  "parse_structured strategy html u =
     (case strategy of
        extract_structured_data \<Rightarrow>
          Inr \<lparr> cd_title = Some ''Test Article: Musical Analysis'', cd_content = Some test_body,
                cd_author = None, cd_date = None \<rparr>
      | _ \<Rightarrow> Inl OtherException)"

definition parse_generic :: parser where
  "parse_generic strategy html u =
     (case strategy of
        extract_structured_data \<Rightarrow>
          Inr \<lparr> cd_title = None, cd_content = None, cd_author = None, cd_date = None \<rparr>
      | extract_semantic_content \<Rightarrow> Inl OtherException
      | _ \<Rightarrow>
          Inr \<lparr> cd_title = Some ''Test Article: Musical Analysis'', cd_content = Some test_body,
                cd_author = None, cd_date = None \<rparr>)"

text \<open>
  \<open>penalty fs\<close> is the product of the factors whose condition holds;
  \<open>length_and_text_factors c\<close> lists the conditions of \<open>_validate_content_quality\<close>
  other than the scan for suspicious patterns, each with the factor it applies.
\<close>

definition penalty :: "(bool \<times> real) list \<Rightarrow> real" where
  "penalty fs = prod_list (map (\<lambda>(b, f). if b then f else 1) fs)"

definition length_and_text_factors :: "ScrapedContent \<Rightarrow> (bool \<times> real) list" where
  "length_and_text_factors c =
     [(length (content c) < min_content_length, 0.3),
      (length (content c) > max_content_length, 0.9),
      (length (title c) < min_title_length, 0.5),
      (length (title c) > max_title_length, 0.9),
      (repetitive (content c), 0.8),
      (low_text_ratio (content c), 0.9)]"

text \<open>
  The conditions that lower the score of \<open>validate_scraped_content\<close>, in the order in
  which the source tests them, each with its factor. The relevance check gives 0.8 to
  a record with one or two keywords and 0.5 to one with none: as a record with no
  keyword also has fewer than three, the second condition carries the factor 0.625
  that takes 0.8 to 0.5.
\<close>

definition score_factors :: "pylib \<Rightarrow> ScrapedContent \<Rightarrow> (bool \<times> real) list" where
  "score_factors L c =
     [((case validate_structure L c of Inl e \<Rightarrow> False | Inr r \<Rightarrow> \<not> passed r), 0.3)]
     @ length_and_text_factors c
     @ [(find (\<lambda>p. re_search p (str_lower (content c))) suspicious_patterns \<noteq> None, 0.2),
        ((case source_attribution c of None \<Rightarrow> False
          | Some a \<Rightarrow> source a \<notin> set valid_sources), 0.9),
        ((case source_attribution c of None \<Rightarrow> False
          | Some a \<Rightarrow> length (to_citation_format a) > 150), 0.9),
        ((case source_attribution c of None \<Rightarrow> False
          | Some a \<Rightarrow> (case publication_date a of None \<Rightarrow> False
              | Some d \<Rightarrow> d \<noteq> [] \<and> \<not> fromisoformat_ok L (str_replace CHR ''Z'' ''+00:00'' d))),
         0.9),
        (music_mentions c < 3, 0.8),
        (music_mentions c = 0, 0.625),
        (\<not> compatible (validate_data_lake_compatibility L c), 0.2)]"

definition failing_conditions :: "pylib \<Rightarrow> ScrapedContent \<Rightarrow> bool list" where
  "failing_conditions L c = map fst (score_factors L c)"

text \<open>
  Records of the same shape with short, regular bodies: \<open>jazz_content\<close> names three
  music keywords (music, jazz, pop) and a known source; \<open>jazz_content_npr\<close> is the same
  under the source name \<open>Npr\<close>, which is how the test environment renders \<open>npr\<close> and
  is not in the allow-list; \<open>chorus_content\<close> repeats one sentence; \<open>empty_content\<close>
  has no body.
\<close>

definition jazz_content :: ScrapedContent where
  "jazz_content = make_content ''NPR'' ''Music'' jazz_body"

definition jazz_content_npr :: ScrapedContent where
  "jazz_content_npr = make_content ''Npr'' ''Music'' jazz_body"

definition chorus_content :: ScrapedContent where
  "chorus_content = make_content ''Npr'' ''Music'' chorus_body"

definition empty_content :: ScrapedContent where
  "empty_content = make_content ''Billboard'' ''Music'' []"

definition check_score :: "check \<Rightarrow> real" where
  "check_score k = snd (snd k)"

text \<open>
  An object store without objects in which no call fails, a configuration whose source
  name is that of the orchestrator's own \<open>source_mapping\<close> entry for Rolling Stone, and
  a run whose discovery finds no URL.
\<close>

definition store0 :: s3 where
  "store0 = \<lparr> s3_keys = {}, head_fails = (\<lambda>k. False), put_fails = (\<lambda>k. False),
               client_fails = False \<rparr>"

definition config_rolling_stone :: ScraperConfig where
  "config_rolling_stone =
     \<lparr> source_name = ''Rolling Stone'', base_url = ''https://www.rollingstone.com'',
       rate_limit = 1, max_articles_per_run = 1000, content_discovery_urls = [],
       archive_bypass_enabled = True, validation_required = True \<rparr>"

definition world_no_urls :: world where
  "world_no_urls =
     \<lparr> w_discover = Inr [], w_net = (\<lambda>strategy u. Inl OtherException),
       w_parse = parse_structured, w_enhance = enhance_extracted_content,
       w_store = store0, w_clock = (\<lambda>i. t0), w_utcnow = t0,
       w_new_batch_id = ''01HM5ZKB00000000000000000A'' \<rparr>"

text \<open>The value that the digits of a decimal numeral denote.\<close>

definition undigits :: "string \<Rightarrow> nat" where
  "undigits s = foldl (\<lambda>a c. 10 * a + ((of_char c :: nat) - 48)) 0 s"

text \<open>
  Two networks for the fetcher. On \<open>net_mirrors\<close> the direct fetch raises and the
  mirrors return successful pages of 400, 600 and 900 characters; on \<open>net_down\<close> the
  direct fetch raises and every mirror returns its failure result.
\<close>

definition fetched :: "string \<Rightarrow> string \<Rightarrow> nat \<Rightarrow> FetchResult" where
  "fetched m u n =
     \<lparr> fr_success = True, fr_content = Some (replicate n CHR ''x''), status_code = Some 200,
       fr_url = u, final_url = u, fr_method = m, error_message = None, fr_metadata = [] \<rparr>"

definition net_mirrors :: network where
  "net_mirrors strategy u =
     (case strategy of
        fetch_direct \<Rightarrow> Inl OtherException
      | fetch_via_archive_ph \<Rightarrow> Inr (fetched ''archive_ph'' u 400)
      | fetch_via_archive_org \<Rightarrow> Inr (fetched ''archive_org'' u 600)
      | fetch_via_google_cache \<Rightarrow> Inr (fetched ''google_cache'' u 900))"

definition net_down :: network where
  "net_down strategy u =
     (case strategy of
        fetch_direct \<Rightarrow> Inl OtherException
      | _ \<Rightarrow> Inr \<lparr> fr_success = False, fr_content = None, status_code = None, fr_url = u,
                   final_url = [], fr_method = ''mirror'',
                   error_message = Some ''Not found'', fr_metadata = [] \<rparr>)"

text \<open>
  A document below the extractor's length guard, and the parsing of a document in
  which nothing is found.
\<close>

definition html_short :: string where
  "html_short = ''<html><body><article>Music</article></body></html>''"

definition parse_nothing :: parser where
  "parse_nothing strategy html u =
     Inr \<lparr> cd_title = None, cd_content = None, cd_author = None, cd_date = None \<rparr>"

section \<open>Facts about the string functions\<close>

lemma startswith_set: "startswith s p \<Longrightarrow> set p \<subseteq> set s"
  by (induction s p rule: startswith.induct) auto

lemma str_in_set: "str_in p s \<Longrightarrow> set p \<subseteq> set s"
proof (induction s)
  case Nil
  then show ?case by simp
next
  case (Cons c cs)
  then show ?case using startswith_set [of "c # cs" p] by auto
qed

lemma search_any_set: "search_any a b s \<Longrightarrow> set a \<subseteq> set s"
proof (induction s)
  case Nil
  then show ?case by simp
next
  case (Cons c cs)
  then show ?case using startswith_set [of "c # cs" a] by auto
qed

lemma startswith_append: "startswith (p @ t) p"
  by (induction p) simp_all

lemma str_in_startswith: "startswith s p \<Longrightarrow> str_in p s"
  by (cases s) (auto elim: startswith.elims)

lemma str_in_append: "str_in p t \<Longrightarrow> str_in p (s @ t)"
  by (induction s) simp_all

lemma str_split_none: "d \<notin> set s \<Longrightarrow> str_split d s = [s]"
  by (induction s) auto

lemma str_split_segment: "d \<notin> set w \<Longrightarrow> str_split d (w @ d # s) = w # str_split d s"
  by (induction w) auto

lemma str_split_repeated:
  "d \<notin> set w \<Longrightarrow> str_split d (concat (replicate n (w @ [d]))) = replicate n w @ [[]]"
  by (induction n) (simp_all add: str_split_segment)

lemma length_concat_replicate: "length (concat (replicate n x)) = n * length x"
  by (induction n) simp_all

lemma filter_concat_replicate:
  "filter P (concat (replicate n x)) = concat (replicate n (filter P x))"
  by (induction n) simp_all

lemma set_concat_replicate: "set (concat (replicate n x)) \<subseteq> set x"
  by (induction n) auto

lemma str_lower_append: "str_lower (s @ t) = str_lower s @ str_lower t"
  by (simp add: str_lower_def)

lemma str_lower_concat_replicate:
  "str_lower (concat (replicate n x)) = concat (replicate n (str_lower x))"
  by (induction n) (simp_all add: str_lower_def)

lemma str_lower_lowercase: "\<forall>c \<in> set s. \<not> has_lower c \<Longrightarrow> str_lower s = s"
  by (induction s) (simp_all add: str_lower_def char_lower_def)

lemma concat_replicate_pos:
  "0 < n \<Longrightarrow> concat (replicate n x) = x @ concat (replicate (n - 1) x)"
  by (cases n) simp_all

lemma remdups_replicate_snoc:
  "0 < n \<Longrightarrow> x \<noteq> y \<Longrightarrow> remdups (replicate n x @ [y]) = [x, y]"
proof (induction n)
  case 0
  then show ?case by simp
next
  case (Suc n)
  show ?case
  proof (cases "n = 0")
    case True
    with Suc.prems show ?thesis by simp
  next
    case False
    with Suc show ?thesis by simp
  qed
qed

lemma remdups_replicate_pos: "0 < n \<Longrightarrow> remdups (replicate n x) = [x]"
  by (induction n) auto


section \<open>The validator's quality check\<close>

lemma scan_suspicious_find:
  "scan_suspicious ps s k =
     (case find (\<lambda>p. re_search p s) ps of
        None \<Rightarrow> k
      | Some p \<Rightarrow> add_error (Suspicious_content_pattern p) 0.2 k)"
  by (induction ps) simp_all

lemma suspicious_nonempty:
  "find (\<lambda>p. re_search p s) suspicious_patterns = Some p \<Longrightarrow> s \<noteq> []"
  by (auto simp: suspicious_patterns_def)

text \<open>
  C10. A body that matches at least one of the suspicious patterns, the earliest of
  them \<open>p\<close>: the quality check returns, its errors are the length errors followed by
  the one error for \<open>p\<close>, and its score is 0.2 times the factors of the other
  conditions. Neither depends on how many further patterns match.
\<close>

theorem suspicious_pattern_once:
  assumes "find (\<lambda>p. re_search p (str_lower (content c))) suspicious_patterns = Some p"
  shows "\<exists>r. validate_content_quality c = Inr r
     \<and> errors r =
         (if length (content c) < min_content_length
          then [Content_too_short (length (content c))] else [])
         @ (if length (title c) < min_title_length
            then [Title_too_short (length (title c))] else [])
         @ [Suspicious_content_pattern p]
     \<and> score r = 0.2 * penalty (length_and_text_factors c)"
proof -
  from assms have "str_lower (content c) \<noteq> []" by (rule suspicious_nonempty)
  then have ne: "content c \<noteq> []" by (simp add: str_lower_def)
  show ?thesis
    using ne assms
    by (simp add: validate_content_quality_def quality_check_def scan_suspicious_find Let_def
        on_def add_error_def add_warning_def result_of_def penalty_def
        length_and_text_factors_def)
qed

lemma malicious_fields:
  "content malicious_content = malicious_body" "title malicious_content = ''404''"
  by (simp_all add: malicious_content_def post_init_def malicious_body_def Let_def)

lemma malicious_first_match:
  "find (\<lambda>p. re_search p (str_lower malicious_body)) suspicious_patterns
     = Some (Lit ''404 not found'')"
  by (simp add: suspicious_patterns_def malicious_body_def str_lower_def char_lower_def
      has_lower_def is_upper_def)

lemma malicious_matches:
  "length (filter (\<lambda>p. re_search p (str_lower malicious_body)) suspicious_patterns) = 3"
  by (simp add: suspicious_patterns_def malicious_body_def str_lower_def char_lower_def
      has_lower_def is_upper_def)

lemma malicious_factors: "penalty (length_and_text_factors malicious_content) = 0.15"
  by (simp add: penalty_def length_and_text_factors_def malicious_fields malicious_body_def
      min_content_length_def max_content_length_def min_title_length_def
      max_title_length_def repetitive_def total_sentences_def low_text_ratio_def
      text_chars_def is_alpha_def is_space_def is_upper_def)

theorem suspicious_pattern_once_witness:
  "length (filter (\<lambda>p. re_search p (str_lower (content malicious_content)))
             suspicious_patterns) = 3
   \<and> (\<exists>r. validate_content_quality malicious_content = Inr r
         \<and> errors r = [Content_too_short 46, Title_too_short 3,
                         Suspicious_content_pattern (Lit ''404 not found'')]
         \<and> score r = 0.03)"
proof -
  have h: "find (\<lambda>p. re_search p (str_lower (content malicious_content))) suspicious_patterns
      = Some (Lit ''404 not found'')"
    by (simp add: malicious_fields malicious_first_match)
  have m: "length malicious_body = 46"
    by (simp add: malicious_body_def)
  have tl: "length (title malicious_content) = 3"
    by (simp add: malicious_fields)
  from suspicious_pattern_once [OF h] show ?thesis
    by (simp add: m tl malicious_factors malicious_matches min_content_length_def
        min_title_length_def malicious_fields(1))
qed

section \<open>Empty batches\<close>

text \<open>
  C9. Batch validation of a batch without items returns \<open>passed = False\<close>, score 0 and
  the one error "Batch contains no content items"; the safety gate on such a batch
  returns \<open>safe = False\<close> with that error.
\<close>

theorem empty_batch_rejected:
  assumes "content_items batch = []"
  shows "validate_batch L batch
       = Inr \<lparr> passed = False, score = 0, errors = [Batch_contains_no_content_items],
               warnings = [] \<rparr>
     \<and> pre_processing_safety_check L batch = Inr (False, [Batch_contains_no_content_items])"
  using assms
  by (simp add: validate_batch_def pre_processing_safety_check_def batch_sources_def)

theorem empty_batch_rejected_witness:
  "validate_batch lib0 (test_batch [])
       = Inr \<lparr> passed = False, score = 0, errors = [Batch_contains_no_content_items],
               warnings = [] \<rparr>
   \<and> pre_processing_safety_check lib0 (test_batch [])
       = Inr (False, [Batch_contains_no_content_items])"
  using empty_batch_rejected [of "test_batch []" lib0]
  by (simp add: test_batch_def)


section \<open>The example records, evaluated\<close>

lemma make_content_fields:
  "content (make_content src t body) = body"
  "title (make_content src t body) = t"
  "url (make_content src t body) = test_url"
  "sc_id (make_content src t body) = new_ulid lib0 test_url"
  "confidence_score (make_content src t body) = 0.8"
  "source_attribution (make_content src t body) = Some (test_attribution src t test_url)"
  "content_type (make_content src t body) = REVIEW"
  "scraped_at (make_content src t body) = t0"
  by (simp_all add: make_content_def post_init_def Let_def)

lemma lib0_calls:
  "new_ulid lib0 u = ''01HM5ZK8E2Q9X7V4T3R6W1Y0NB''"
  "urlparse lib0 test_url = Inr (''https'', ''example.com'')"
  "json_ok lib0 c"
  "fromisoformat_ok lib0 (str_replace CHR ''Z'' ''+00:00'' ''2024-01-15T10:00:00Z'')"
  by (simp_all add: lib0_def test_url_def str_replace_def)

lemma test_url_nonempty: "test_url \<noteq> []"
  by (simp add: test_url_def)

lemma make_content_structure:
  assumes "src \<noteq> []" "t \<noteq> []" "body \<noteq> []"
  shows "validate_structure lib0 (make_content src t body)
     = Inr \<lparr> passed = True, score = 1, errors = [], warnings = [] \<rparr>"
  using assms
  by (simp add: validate_structure_def to_v3_format_def make_content_fields lib0_calls
      test_attribution_def Let_def test_url_nonempty check_url_def)

lemma citation_prefix: "startswith (to_citation_format a) ''[Source:''"
  by (simp add: to_citation_format_def Let_def)

lemma make_content_compatible:
  "compatible (validate_data_lake_compatibility lib0 (make_content src t body))"
  by (simp add: validate_data_lake_compatibility_def to_v3_format_def make_content_fields
      lib0_calls citation_prefix Let_def)

lemma music_attribution:
  "validate_source_attribution lib0 (Some (test_attribution ''NPR'' ''Music'' test_url))
     = Inr \<lparr> passed = True, score = 1, errors = [], warnings = [] \<rparr>"
  "validate_source_attribution lib0 (Some (test_attribution ''Npr'' ''Music'' test_url))
     = Inr \<lparr> passed = True, score = 0.9, errors = [], warnings = [Unknown_source ''Npr''] \<rparr>"
  by (simp_all add: validate_source_attribution_def test_attribution_def Let_def on_def
      add_warning_def add_error_def result_of_def valid_sources_def to_citation_format_def
      lib0_calls check_url_def test_url_nonempty)

lemma char_lower_M: "char_lower CHR ''M'' = CHR ''m''"
  by code_simp

lemma lower_jazz_body: "str_lower jazz_body = jazz_body"
  unfolding jazz_body_def str_lower_concat_replicate
  by (simp add: str_lower_def char_lower_def has_lower_def is_upper_def)

lemma lower_chorus_body: "str_lower chorus_body = chorus_body"
  unfolding chorus_body_def str_lower_concat_replicate
  by (simp add: str_lower_def char_lower_def has_lower_def is_upper_def)

lemma lower_music_text: "str_lower (''Music'' @ '' '' @ body) = ''music '' @ str_lower body"
  by (simp add: str_lower_def char_lower_M) (simp add: char_lower_def has_lower_def is_upper_def)

lemma no_suspicious_pattern:
  assumes "set s \<subseteq> set ''music. jazz pop''"
  shows "find (\<lambda>p. re_search p s) suspicious_patterns = None"
proof -
  have lit: "str_in k s = False" if "\<not> set k \<subseteq> set ''music. jazz pop''" for k
    using str_in_set [of k s] assms that by blast
  have any: "search_any a b s = False" if "\<not> set a \<subseteq> set ''music. jazz pop''" for a b
    using search_any_set [of a b s] assms that by blast
  show ?thesis
    by (simp add: suspicious_patterns_def lit any)
qed

lemma count_keywords:
  fixes T :: string
  assumes "set T \<subseteq> set ''music. jazz pop''"
    and "str_in ''music'' T" and "str_in ''jazz'' T = j" and "str_in ''pop'' T = j"
  shows "length (filter (\<lambda>keyword. str_in keyword T) music_keywords) = (if j then 3 else 1)"
proof -
  have neg: "str_in k T = False" if "\<not> set k \<subseteq> set ''music. jazz pop''" for k
    using str_in_set [of k T] assms(1) that by blast
  show ?thesis
    by (simp add: music_keywords_def assms(2,3,4) neg)
qed

lemma jazz_body_chars: "set jazz_body \<subseteq> set ''music. jazz pop''"
  using set_concat_replicate [of 30 "''jazz pop ''"] by (auto simp: jazz_body_def)

lemma chorus_body_chars: "set chorus_body \<subseteq> set ''music. jazz pop''"
  using set_concat_replicate [of 40 "''music'' @ ''.''"] by (auto simp: chorus_body_def)

lemma jazz_mentions: "music_mentions (make_content src ''Music'' jazz_body) = 3"
proof -
  let ?T = "''music '' @ jazz_body"
  have c: "set ?T \<subseteq> set ''music. jazz pop''" using jazz_body_chars by auto
  have m: "str_in ''music'' ?T" by simp
  have jb: "jazz_body = ''jazz pop '' @ concat (replicate 29 ''jazz pop '')"
    unfolding jazz_body_def by (subst concat_replicate_pos) simp_all
  have j: "str_in ''jazz'' ?T = True" by (subst jb) simp
  have p: "str_in ''pop'' ?T = True" by (subst jb) simp
  show ?thesis
    using count_keywords [OF c m j p]
    by (simp only: music_mentions_def make_content_fields lower_music_text lower_jazz_body
        if_True)
qed

lemma chorus_mentions: "music_mentions (make_content src ''Music'' chorus_body) = 1"
proof -
  let ?T = "''music '' @ chorus_body"
  have c: "set ?T \<subseteq> set ''music. jazz pop''" using chorus_body_chars by auto
  have m: "str_in ''music'' ?T" by simp
  have nj: "str_in ''jazz'' ?T = False"
    using str_in_set [of "''jazz''" ?T] chorus_body_chars
      set_concat_replicate [of 40 "''music'' @ ''.''"]
    by (auto simp: chorus_body_def)
  have np: "str_in ''pop'' ?T = False"
    using str_in_set [of "''pop''" ?T] chorus_body_chars
      set_concat_replicate [of 40 "''music'' @ ''.''"]
    by (auto simp: chorus_body_def)
  show ?thesis
    using count_keywords [OF c m nj np]
    by (simp only: music_mentions_def make_content_fields lower_music_text lower_chorus_body
        if_False)
qed

lemma jazz_body_facts:
  "length jazz_body = 270" "jazz_body \<noteq> []" "\<not> repetitive jazz_body"
  "\<not> low_text_ratio jazz_body"
proof -
  show l: "length jazz_body = 270" by (simp add: jazz_body_def length_concat_replicate)
  then show "jazz_body \<noteq> []" by auto
  have "CHR ''.'' \<notin> set jazz_body" using jazz_body_chars
      set_concat_replicate [of 30 "''jazz pop ''"] by (auto simp: jazz_body_def)
  then show "\<not> repetitive jazz_body"
    by (simp add: repetitive_def total_sentences_def str_split_none)
  have "text_chars jazz_body = 270"
    by (simp add: text_chars_def jazz_body_def filter_concat_replicate
        length_concat_replicate is_alpha_def is_space_def is_upper_def)
  then show "\<not> low_text_ratio jazz_body" by (simp add: low_text_ratio_def l)
qed

lemma chorus_body_facts:
  "length chorus_body = 240" "chorus_body \<noteq> []" "repetitive chorus_body"
  "\<not> low_text_ratio chorus_body"
proof -
  show l: "length chorus_body = 240" by (simp add: chorus_body_def length_concat_replicate)
  then show "chorus_body \<noteq> []" by auto
  have sp: "str_split CHR ''.'' chorus_body = replicate 40 ''music'' @ [[]]"
    unfolding chorus_body_def by (rule str_split_repeated) simp
  have "remdups (replicate 40 ''music'' @ [[]]) = [''music'', []]"
    by (rule remdups_replicate_snoc) simp_all
  then show "repetitive chorus_body"
    by (simp add: repetitive_def total_sentences_def unique_sentences_def sp)
  have "text_chars chorus_body = 200"
    by (simp add: text_chars_def chorus_body_def filter_concat_replicate
        length_concat_replicate is_alpha_def is_space_def is_upper_def)
  then show "\<not> low_text_ratio chorus_body" by (simp add: low_text_ratio_def l)
qed

lemma jazz_quality:
  "validate_content_quality (make_content src ''Music'' jazz_body)
     = Inr \<lparr> passed = True, score = 1, errors = [], warnings = [] \<rparr>"
  by (simp add: validate_content_quality_def quality_check_def make_content_fields
      jazz_body_facts lower_jazz_body no_suspicious_pattern [OF jazz_body_chars]
      scan_suspicious_find Let_def on_def result_of_def min_content_length_def
      max_content_length_def min_title_length_def max_title_length_def)

lemma chorus_quality:
  "validate_content_quality (make_content src ''Music'' chorus_body)
     = Inr \<lparr> passed = True, score = 0.8, errors = [],
             warnings = [Content_appears_repetitive] \<rparr>"
  by (simp add: validate_content_quality_def quality_check_def make_content_fields
      chorus_body_facts lower_chorus_body no_suspicious_pattern [OF chorus_body_chars]
      scan_suspicious_find Let_def on_def result_of_def add_warning_def
      min_content_length_def max_content_length_def min_title_length_def
      max_title_length_def)

lemma jazz_relevance:
  "validate_music_relevance (make_content src ''Music'' jazz_body)
     = \<lparr> passed = True, score = 1, errors = [], warnings = [] \<rparr>"
  by (simp add: validate_music_relevance_def jazz_mentions Let_def result_of_def)

lemma chorus_relevance:
  "validate_music_relevance (make_content src ''Music'' chorus_body)
     = \<lparr> passed = True, score = 0.8, errors = [], warnings = [Limited_music_relevance] \<rparr>"
  by (simp add: validate_music_relevance_def chorus_mentions Let_def result_of_def
      add_warning_def)

lemma jazz_content_valid:
  "validate_scraped_content lib0 jazz_content
     = Inr \<lparr> passed = True, score = 1, errors = [], warnings = [] \<rparr>"
  by (simp add: validate_scraped_content_def jazz_content_def make_content_structure
      jazz_body_facts jazz_quality jazz_relevance make_content_compatible
      make_content_fields music_attribution Let_def)

lemma jazz_content_npr_valid:
  "validate_scraped_content lib0 jazz_content_npr
     = Inr \<lparr> passed = True, score = 0.9, errors = [], warnings = [] \<rparr>"
  by (simp add: validate_scraped_content_def jazz_content_npr_def make_content_structure
      jazz_body_facts jazz_quality jazz_relevance make_content_compatible
      make_content_fields music_attribution Let_def)

lemma chorus_content_valid:
  "validate_scraped_content lib0 chorus_content
     = Inr \<lparr> passed = True, score = 0.576, errors = [],
             warnings = [Content_appears_repetitive, Limited_music_relevance] \<rparr>"
  by (simp add: validate_scraped_content_def chorus_content_def make_content_structure
      chorus_body_facts chorus_quality chorus_relevance make_content_compatible
      make_content_fields music_attribution Let_def)

lemma empty_content_raises:
  "validate_scraped_content lib0 empty_content = Inl ZeroDivisionError"
  by (simp add: validate_scraped_content_def empty_content_def validate_structure_def
      to_v3_format_def make_content_fields validate_content_quality_def Let_def
      check_url_def lib0_calls test_url_nonempty)


section \<open>The composite score\<close>

lemma check_score_on_error [simp]:
  "check_score (on b (add_error m f) k) = check_score k * (if b then f else 1)"
  by (cases k) (simp add: check_score_def on_def add_error_def)

lemma check_score_on_warning [simp]:
  "check_score (on b (add_warning m f) k) = check_score k * (if b then f else 1)"
  by (cases k) (simp add: check_score_def on_def add_warning_def)

lemma check_score_scan [simp]:
  "check_score (scan_suspicious ps s k)
     = check_score k * (if find (\<lambda>p. re_search p s) ps \<noteq> None then 0.2 else 1)"
  by (cases k) (simp add: scan_suspicious_find check_score_def add_error_def split: option.splits)

lemma check_score_init [simp]: "check_score ([], [], s) = s"
  by (simp add: check_score_def)

lemma score_result_of [simp]: "score (result_of k) = check_score k"
  by (cases k) (simp add: result_of_def check_score_def)

lemma penalty_Nil [simp]: "penalty [] = 1"
  by (simp add: penalty_def)

lemma penalty_Cons [simp]: "penalty ((b, f) # fs) = (if b then f else 1) * penalty fs"
  by (simp add: penalty_def)

lemma penalty_append [simp]: "penalty (fs @ gs) = penalty fs * penalty gs"
  by (simp add: penalty_def)

lemma quality_score:
  assumes "validate_content_quality c = Inr q"
  shows "score q = penalty (length_and_text_factors c)
     * (if find (\<lambda>p. re_search p (str_lower (content c))) suspicious_patterns \<noteq> None
        then 0.2 else 1)"
proof -
  have "q = result_of (on (low_text_ratio (content c))
              (add_warning Low_text_content_ratio 0.9) (quality_check c))"
    using assms by (simp add: validate_content_quality_def Let_def split: if_splits)
  then show ?thesis
    by (simp add: quality_check_def Let_def length_and_text_factors_def
        split del: if_split)
qed

lemma attribution_score:
  assumes "validate_source_attribution L (Some a) = Inr ar"
  shows "score ar
     = penalty [(source a \<notin> set valid_sources, 0.9),
                (length (to_citation_format a) > 150, 0.9),
                ((case publication_date a of None \<Rightarrow> False
                  | Some d \<Rightarrow> d \<noteq> [] \<and> \<not> fromisoformat_ok L (str_replace CHR ''Z'' ''+00:00'' d)),
                 0.9)]"
proof -
  obtain url_errors where ue: "check_url L (sa_url a) Invalid_attribution_URL = Inr url_errors"
    using assms
    by (cases "check_url L (sa_url a) Invalid_attribution_URL")
       (simp_all add: validate_source_attribution_def)
  have "ar = result_of
      (on (case publication_date a of None \<Rightarrow> False
           | Some d \<Rightarrow> d \<noteq> [] \<and> \<not> fromisoformat_ok L (str_replace CHR ''Z'' ''+00:00'' d))
         (add_warning Invalid_publication_date_format 0.9)
      (on (url_errors \<noteq> []) (add_error Invalid_attribution_URL 1)
      (on (length (to_citation_format a) > 150) (add_warning Citation_format_very_long 0.9)
      (on (length (to_citation_format a) < 10) (add_error Citation_format_too_short 1)
      (on (source a \<notin> set valid_sources) (add_warning (Unknown_source (source a)) 0.9)
         ([], [], 1))))))"
    using assms ue by (simp add: validate_source_attribution_def Let_def)
  then show ?thesis
    by (simp split del: if_split)
qed

lemma relevance_score:
  "score (validate_music_relevance c)
     = penalty [(music_mentions c < 3, 0.8), (music_mentions c = 0, 0.625)]"
  by (simp add: validate_music_relevance_def Let_def result_of_def add_warning_def)

lemma validate_has_attribution:
  "validate_scraped_content L c = Inr r \<Longrightarrow> \<exists>a. source_attribution c = Some a"
  by (cases "source_attribution c")
     (simp_all add: validate_scraped_content_def validate_structure_def to_v3_format_def)

lemma composite_score:
  assumes "validate_scraped_content L c = Inr r"
  shows "score r = penalty (score_factors L c)"
proof -
  obtain a where a: "source_attribution c = Some a"
    using validate_has_attribution [OF assms] by blast
  obtain sr where sr: "validate_structure L c = Inr sr"
    using assms by (cases "validate_structure L c") (simp_all add: validate_scraped_content_def)
  obtain q where q: "validate_content_quality c = Inr q"
    using assms sr
    by (cases "validate_content_quality c") (simp_all add: validate_scraped_content_def)
  obtain ar where ar: "validate_source_attribution L (Some a) = Inr ar"
    using assms sr q a
    by (cases "validate_source_attribution L (Some a)")
       (simp_all add: validate_scraped_content_def)
  have "score r = (if \<not> passed sr then 0.3 else 1) * score q
      * score ar * score (validate_music_relevance c)
      * (if \<not> compatible (validate_data_lake_compatibility L c) then 0.2 else 1)"
    using assms sr q a ar
    by (auto simp: validate_scraped_content_def Let_def split: if_splits)
  then show ?thesis
    unfolding quality_score [OF q] attribution_score [OF ar] relevance_score
    by (simp add: score_factors_def sr a mult.assoc split del: if_split cong: if_cong)
qed

lemma penalty_mono:
  assumes "list_all2 (\<lambda>x y. (fst x \<longrightarrow> fst y) \<and> snd y = snd x \<and> 0 \<le> snd x \<and> snd x \<le> 1)
             fs fs'"
  shows "0 \<le> penalty fs' \<and> penalty fs' \<le> penalty fs \<and> penalty fs \<le> 1"
  using assms
proof (induction rule: list_all2_induct)
  case Nil
  show ?case by simp
next
  case (Cons x xs y ys)
  obtain b f where x: "x = (b, f)" by (cases x)
  obtain b' f' where y: "y = (b', f')" by (cases y)
  from Cons.hyps(1) have f': "f' = f" and f: "0 \<le> f" "f \<le> 1" and imp: "b \<longrightarrow> b'"
    by (simp_all add: x y)
  from Cons.IH have IH: "0 \<le> penalty ys" "penalty ys \<le> penalty xs" "penalty xs \<le> 1"
    by simp_all
  have pxs: "0 \<le> penalty xs" using IH by linarith
  have le: "(if b' then f else 1) \<le> (if b then f else 1)" using imp f by simp
  have nn: "0 \<le> (if b' then f else 1)" using f by simp
  have nn': "0 \<le> (if b then f else 1)" using f by simp
  have le1: "(if b then f else 1) \<le> 1" using f by simp
  have "(if b' then f else 1) * penalty ys \<le> (if b then f else 1) * penalty xs"
    by (rule mult_mono [OF le IH(2) nn' IH(1)])
  moreover have "(if b then f else 1) * penalty xs \<le> 1"
    by (rule mult_le_one [OF le1 pxs IH(3)])
  moreover have "0 \<le> (if b' then f else 1) * penalty ys"
    by (rule mult_nonneg_nonneg [OF nn IH(1)])
  ultimately show ?case
    unfolding x y f' penalty_Cons by blast
qed

lemma score_factors_related:
  assumes "list_all2 (\<lambda>b b'. b \<longrightarrow> b') (failing_conditions L c) (failing_conditions L c')"
  shows "list_all2 (\<lambda>x y. (fst x \<longrightarrow> fst y) \<and> snd y = snd x \<and> 0 \<le> snd x \<and> snd x \<le> 1)
           (score_factors L c) (score_factors L c')"
  using assms
  by (simp add: failing_conditions_def score_factors_def length_and_text_factors_def)

lemma score_factors_values:
  "map snd (score_factors L c)
     = [0.3, 0.3, 0.9, 0.5, 0.9, 0.8, 0.9, 0.2, 0.9, 0.9, 0.9, 0.8, 0.625, 0.2]"
  by (simp add: score_factors_def length_and_text_factors_def)

text \<open>
  Where validation returns for both records: the score is the product of the factors
  of the failing conditions, every factor lies between 0 and 1, and a record \<open>c'\<close>
  that fails every condition that \<open>c\<close> fails (and possibly more) scores no higher
  than \<open>c\<close>.
\<close>

theorem validation_score_monotone:
  assumes "validate_scraped_content L c = Inr r"
    and "validate_scraped_content L c' = Inr r'"
    and "list_all2 (\<lambda>b b'. b \<longrightarrow> b') (failing_conditions L c) (failing_conditions L c')"
  shows "score r = penalty (score_factors L c)
     \<and> list_all (\<lambda>f. 0 \<le> f \<and> f \<le> 1) (map snd (score_factors L c))
     \<and> 0 \<le> score r' \<and> score r' \<le> score r \<and> score r \<le> 1"
proof -
  have v: "list_all (\<lambda>f. 0 \<le> f \<and> f \<le> 1) (map snd (score_factors L c))"
    unfolding score_factors_values by simp
  have "0 \<le> penalty (score_factors L c')
      \<and> penalty (score_factors L c') \<le> penalty (score_factors L c)
      \<and> penalty (score_factors L c) \<le> 1"
    by (rule penalty_mono [OF score_factors_related [OF assms(3)]])
  then show ?thesis
    using v composite_score [OF assms(1)] composite_score [OF assms(2)] by simp
qed


lemma jazz_failing_conditions:
  "failing_conditions lib0 jazz_content
     = [False, False, False, False, False, False, False, False, False, False, False, False,
        False, False]"
  "failing_conditions lib0 jazz_content_npr
     = [False, False, False, False, False, False, False, False, True, False, False, False,
        False, False]"
  by (simp_all add: failing_conditions_def score_factors_def length_and_text_factors_def
      jazz_content_def jazz_content_npr_def make_content_structure jazz_body_facts
      make_content_fields lower_jazz_body no_suspicious_pattern [OF jazz_body_chars]
      jazz_mentions make_content_compatible test_attribution_def valid_sources_def
      to_citation_format_def lib0_calls min_content_length_def max_content_length_def
      min_title_length_def max_title_length_def)

theorem validation_score_monotone_witness:
  "validate_scraped_content lib0 jazz_content
     = Inr \<lparr> passed = True, score = 1, errors = [], warnings = [] \<rparr>
   \<and> validate_scraped_content lib0 jazz_content_npr
     = Inr \<lparr> passed = True, score = 0.9, errors = [], warnings = [] \<rparr>
   \<and> penalty (score_factors lib0 jazz_content_npr) = 0.9
   \<and> penalty (score_factors lib0 jazz_content_npr) \<le> penalty (score_factors lib0 jazz_content)"
proof -
  have h: "list_all2 (\<lambda>b b'. b \<longrightarrow> b') (failing_conditions lib0 jazz_content)
      (failing_conditions lib0 jazz_content_npr)"
    by (simp add: jazz_failing_conditions)
  from validation_score_monotone [OF jazz_content_valid jazz_content_npr_valid h]
    validation_score_monotone [OF jazz_content_npr_valid jazz_content_npr_valid]
  show ?thesis
    by (simp add: jazz_content_valid jazz_content_npr_valid jazz_failing_conditions
        list_all2_same)
qed

text \<open>
  C2 at a record that passes with score 1, to which one hard-error condition is added
  with everything else unchanged. With the body emptied (the condition "content too
  short") validation raises \<open>ZeroDivisionError\<close>; with the attribution removed (the
  condition "missing source attribution") it raises \<open>AttributeError\<close>. In both cases
  there is no score to compare with the score of the passing record.
\<close>

theorem added_hard_error_raises:
  "validate_scraped_content lib0 jazz_content
     = Inr \<lparr> passed = True, score = 1, errors = [], warnings = [] \<rparr>
   \<and> validate_scraped_content lib0 (jazz_content\<lparr> content := [] \<rparr>)
     = Inl ZeroDivisionError
   \<and> validate_scraped_content lib0 (jazz_content\<lparr> source_attribution := None \<rparr>)
     = Inl AttributeError"
proof -
  have "validate_scraped_content lib0 (jazz_content\<lparr> content := [] \<rparr>)
      = Inl ZeroDivisionError"
    by (simp add: validate_scraped_content_def jazz_content_def validate_structure_def
        to_v3_format_def make_content_fields validate_content_quality_def Let_def
        check_url_def lib0_calls test_url_nonempty)
  moreover have "validate_scraped_content lib0 (jazz_content\<lparr> source_attribution := None \<rparr>)
      = Inl AttributeError"
    by (simp add: validate_scraped_content_def validate_structure_def to_v3_format_def)
  ultimately show ?thesis
    by (simp add: jazz_content_valid)
qed


section \<open>The safety gate on batches of identical items\<close>

lemma validate_items_identical:
  assumes "validate_scraped_content L c = Inr r" "passed r"
  shows "validate_items L i (replicate n c) st
     = Inr \<lparr> item_scores = item_scores st @ replicate n (score r),
             total_errors = total_errors st,
             bl_errors = bl_errors st,
             bl_warnings = bl_warnings st
               @ concat (map (\<lambda>j. map (Item j) (warnings r)) [i..<i + n]) \<rparr>"
proof (induction n arbitrary: i st)
  case 0
  show ?case by simp
next
  case (Suc n)
  have "[i..<i + Suc n] = i # [Suc i..<Suc i + n]"
    by (simp add: upt_conv_Cons)
  then show ?case
    using assms by (simp add: Suc.IH)
qed

lemma batch_sources_identical:
  assumes "source_attribution c = Some a" "content_items batch = replicate n c" "0 < n"
  shows "batch_sources batch = [source a]"
proof -
  have "concat (map (\<lambda>item. case source_attribution item of None \<Rightarrow> [] | Some a \<Rightarrow> [source a])
          (replicate n c)) = replicate n (source a)"
    using assms(1) by (induction n) simp_all
  then show ?thesis
    using assms(2,3) by (simp add: batch_sources_def remdups_replicate_pos)
qed

lemma validate_batch_identical:
  assumes "validate_scraped_content L c = Inr r" "passed r"
    and "content_items batch = replicate n c" "0 < n"
  shows "validate_batch L batch
     = Inr \<lparr> passed = (0.6 \<le> score r), score = score r,
             errors = (if score r < 0.6 then [Batch_average_quality_too_low (score r)] else []),
             warnings = concat (map (\<lambda>j. map (Item j) (warnings r)) [0..<n]) \<rparr>"
proof -
  have ne: "replicate n c \<noteq> []" using assms(4) by auto
  show ?thesis
    using assms(3,4) ne
    by (simp add: validate_batch_def validate_items_identical [OF assms(1,2)] Let_def
        sum_list_replicate)
qed

text \<open>
  C6, as amended. A batch of \<open>n \<ge> 1\<close> copies of one item that passes validation: the
  gate returns, the "batch too large" error is raised exactly when \<open>n > 100\<close>, and the
  only other error it can raise is that of the batch average, when the item's score is
  below 0.6. So 101 copies are rejected with "batch too large", and 99 copies of an
  item that scores at least 0.6 are admitted.
\<close>

theorem batch_size_gate:
  assumes "validate_scraped_content L c = Inr r" "passed r"
    and "content_items batch = replicate n c" "0 < n"
  shows "pre_processing_safety_check L batch
     = Inr (n \<le> 100 \<and> 0.6 \<le> score r,
            (if score r < 0.6 then [Batch_average_quality_too_low (score r)] else [])
            @ (if n > 100 then [Batch_too_large n] else []))"
proof -
  obtain a where a: "source_attribution c = Some a"
    using validate_has_attribution [OF assms(1)] by blast
  show ?thesis
    using assms(3)
    by (auto simp: pre_processing_safety_check_def validate_batch_identical [OF assms]
        batch_sources_identical [OF a assms(3,4)] Let_def)
qed

theorem batch_size_gate_witness:
  "pre_processing_safety_check lib0 (test_batch (replicate 101 jazz_content))
     = Inr (False, [Batch_too_large 101])
   \<and> pre_processing_safety_check lib0 (test_batch (replicate 99 jazz_content))
     = Inr (True, [])"
  using batch_size_gate [OF jazz_content_valid, of "test_batch (replicate 101 jazz_content)" 101]
    batch_size_gate [OF jazz_content_valid, of "test_batch (replicate 99 jazz_content)" 99]
  by (simp add: test_batch_def)

text \<open>
  The claim as stated fails on an item that passes validation with a score between 0.5
  and 0.6: 99 copies of it are rejected for their average.
\<close>

theorem batch_of_99_passing_items_rejected:
  "validate_scraped_content lib0 chorus_content
     = Inr \<lparr> passed = True, score = 0.576, errors = [],
             warnings = [Content_appears_repetitive, Limited_music_relevance] \<rparr>
   \<and> pre_processing_safety_check lib0 (test_batch (replicate 99 chorus_content))
     = Inr (False, [Batch_average_quality_too_low 0.576])"
proof -
  let ?b = "test_batch (replicate 99 chorus_content)"
  have items: "content_items ?b = replicate 99 chorus_content"
    by (simp add: test_batch_def)
  have src: "source_attribution chorus_content
      = Some (test_attribution ''Npr'' ''Music'' test_url)"
    by (simp add: chorus_content_def make_content_fields)
  have "validate_batch lib0 ?b
      = Inr \<lparr> passed = False, score = 0.576,
              errors = [Batch_average_quality_too_low 0.576],
              warnings = concat (map (\<lambda>j. map (Item j)
                [Content_appears_repetitive, Limited_music_relevance]) [0..<99]) \<rparr>"
    using validate_batch_identical [OF chorus_content_valid _ items] by simp
  moreover have "batch_sources ?b = [''Npr'']"
    using batch_sources_identical [OF src items] by (simp add: test_attribution_def)
  ultimately show ?thesis
    by (simp add: pre_processing_safety_check_def chorus_content_valid items)
qed

section \<open>The safety gate on mixed sources\<close>

lemma mixed_sources_flagged:
  assumes "validate_batch L batch = Inr vr"
    and "c \<in> set (content_items batch)" "source_attribution c = Some a"
    and "c' \<in> set (content_items batch)" "source_attribution c' = Some a'"
    and "source a \<noteq> source a'"
  shows "\<exists>es. pre_processing_safety_check L batch = Inr (False, es)
           \<and> Mixed_sources_in_single_batch \<in> set es"
proof -
  let ?srcs = "concat (map (\<lambda>item. case source_attribution item of
                                     None \<Rightarrow> [] | Some a \<Rightarrow> [source a])
                          (content_items batch))"
  have "source a \<in> set ?srcs" using assms(2,3) by force
  moreover have "source a' \<in> set ?srcs" using assms(4,5) by force
  ultimately have "{source a, source a'} \<subseteq> set (batch_sources batch)"
    by (simp add: batch_sources_def)
  then have "card {source a, source a'} \<le> card (set (batch_sources batch))"
    by (intro card_mono) simp_all
  moreover have "card (set (batch_sources batch)) \<le> length (batch_sources batch)"
    by (rule card_length)
  ultimately have "length (batch_sources batch) > 1"
    using assms(6) by simp
  then show ?thesis
    using assms(1) by (simp add: pre_processing_safety_check_def Let_def)
qed

text \<open>
  C5 at a batch of two items from two sources, one of them with an empty body: the
  gate does not return. The validation of the empty body divides by its length.
\<close>

theorem mixed_batch_with_empty_body_raises:
  "batch_sources (test_batch [empty_content, jazz_content]) = [''Billboard'', ''NPR'']
   \<and> pre_processing_safety_check lib0 (test_batch [empty_content, jazz_content])
     = Inl ZeroDivisionError"
  by (simp add: batch_sources_def test_batch_def empty_content_def jazz_content_def
      make_content_fields test_attribution_def pre_processing_safety_check_def
      validate_batch_def empty_content_raises [unfolded empty_content_def])


section \<open>The fetch cascade\<close>

lemma fetch_loop_find:
  "fetch_loop net ss u =
     (case find (\<lambda>s. case net s u of Inl e \<Rightarrow> False | Inr r \<Rightarrow> fetch_accepted r) ss of
        Some s \<Rightarrow> net s u
      | None \<Rightarrow> Inr (all_strategies_failed u))"
  by (induction ss) (auto split: sum.splits)

lemma fetch_loop_returns: "\<exists>r. fetch_loop net ss u = Inr r"
  by (induction ss) (auto split: sum.splits)

text \<open>
  C3. \<open>fetch_with_fallbacks\<close> returns the result of the first strategy, in the order
  direct, archive.ph, archive.org, Google cache, that returns a result whose \<open>success\<close>
  is true and whose text is longer than 500 characters; when there is none it returns
  the failure result, whose \<open>success\<close> is false and whose error message is "All fetch
  strategies failed". It returns in every case: a strategy that raises is passed over.
\<close>

theorem fetch_with_fallbacks_first_accepted:
  "fetch_with_fallbacks net u =
     (case find (\<lambda>s. case net s u of
                        Inl e \<Rightarrow> False
                      | Inr r \<Rightarrow> fr_success r
                          \<and> (case fr_content r of None \<Rightarrow> False | Some t \<Rightarrow> 500 < length t))
             [fetch_direct, fetch_via_archive_ph, fetch_via_archive_org, fetch_via_google_cache] of
        Some s \<Rightarrow> net s u
      | None \<Rightarrow> Inr (all_strategies_failed u))
   \<and> (\<exists>r. fetch_with_fallbacks net u = Inr r)
   \<and> \<not> fr_success (all_strategies_failed u)
   \<and> error_message (all_strategies_failed u) = Some ''All fetch strategies failed''"
proof (intro conjI)
  have acc: "fetch_accepted r
      = (fr_success r \<and> (case fr_content r of None \<Rightarrow> False | Some t \<Rightarrow> 500 < length t))" for r
    by (auto simp: fetch_accepted_def split: option.splits)
  show "fetch_with_fallbacks net u =
     (case find (\<lambda>s. case net s u of
                        Inl e \<Rightarrow> False
                      | Inr r \<Rightarrow> fr_success r
                          \<and> (case fr_content r of None \<Rightarrow> False | Some t \<Rightarrow> 500 < length t))
             [fetch_direct, fetch_via_archive_ph, fetch_via_archive_org, fetch_via_google_cache] of
        Some s \<Rightarrow> net s u
      | None \<Rightarrow> Inr (all_strategies_failed u))"
    unfolding fetch_with_fallbacks_def fetch_loop_find acc fetch_strategies_def ..
  show "\<exists>r. fetch_with_fallbacks net u = Inr r"
    unfolding fetch_with_fallbacks_def by (rule fetch_loop_returns)
  show "\<not> fr_success (all_strategies_failed u)"
    by (simp add: all_strategies_failed_def)
  show "error_message (all_strategies_failed u) = Some ''All fetch strategies failed''"
    by (simp add: all_strategies_failed_def)
qed

text \<open>
  On \<open>net_mirrors\<close> the direct fetch raises, archive.ph returns a successful page of
  400 characters, archive.org one of 600 and the cache one of 900: the result is that
  of archive.org. On \<open>net_down\<close> every strategy raises or fails.
\<close>

lemma net_mirrors_results:
  "net_mirrors fetch_direct u = Inl OtherException"
  "net_mirrors fetch_via_archive_ph u = Inr (fetched ''archive_ph'' u 400)"
  "net_mirrors fetch_via_archive_org u = Inr (fetched ''archive_org'' u 600)"
  "net_mirrors fetch_via_google_cache u = Inr (fetched ''google_cache'' u 900)"
  by (simp_all add: net_mirrors_def)

lemma fetched_fields:
  "fr_success (fetched m u n)" "fr_content (fetched m u n) = Some (replicate n CHR ''x'')"
  by (simp_all add: fetched_def)

theorem fetch_with_fallbacks_witness:
  "fetch_with_fallbacks net_mirrors test_url = Inr (fetched ''archive_org'' test_url 600)
   \<and> fetch_with_fallbacks net_down test_url = Inr (all_strategies_failed test_url)"
  using fetch_with_fallbacks_first_accepted [of net_mirrors test_url]
    fetch_with_fallbacks_first_accepted [of net_down test_url]
  by (simp add: net_mirrors_results fetched_fields net_down_def)

section \<open>The extraction cascade\<close>

lemma extract_loop_invoked_prefix:
  "\<exists>n. n \<le> length ss \<and> invoked (extract_loop run ss st) = invoked st @ take n ss"
proof (induction ss arbitrary: st)
  case Nil
  then show ?case by simp
next
  case (Cons s ss)
  show ?case
  proof (cases "run s")
    case (Inl e)
    from Cons.IH[of "st\<lparr> invoked := invoked st @ [s] \<rparr>"]
    obtain n where "n \<le> length ss"
      "invoked (extract_loop run ss (st\<lparr> invoked := invoked st @ [s] \<rparr>)) = (invoked st @ [s]) @ take n ss"
      by auto
    then show ?thesis using Inl by (intro exI[of _ "Suc n"]) simp
  next
    case (Inr r)
    let ?st = "(if er_success r \<and> confidence r > best_confidence st
                then st\<lparr> invoked := invoked st @ [s], best_result := Some r, best_confidence := confidence r \<rparr>
                else st\<lparr> invoked := invoked st @ [s] \<rparr>)"
    show ?thesis
    proof (cases "confidence r > 0.8")
      case True
      then show ?thesis using Inr by (intro exI[of _ "Suc 0"]) (simp add: Let_def)
    next
      case False
      from Cons.IH[of ?st]
      obtain n where "n \<le> length ss"
        "invoked (extract_loop run ss ?st) = invoked ?st @ take n ss"
        by auto
      then show ?thesis using Inr False by (intro exI[of _ "Suc n"]) (auto simp: Let_def)
    qed
  qed
qed

lemma extract_loop_short_circuit:
  assumes "k < length ss" "run (ss ! k) = Inr r" "er_success r" "confidence r > 0.8"
    and "length (invoked (extract_loop run ss st)) > length (invoked st) + k"
    and "best_confidence st \<le> 0.8"
  shows "invoked (extract_loop run ss st) = invoked st @ take (Suc k) ss
       \<and> best_result (extract_loop run ss st) = Some r"
  using assms
proof (induction ss arbitrary: k st)
  case Nil
  then show ?case by simp
next
  case (Cons s ss)
  show ?case
  proof (cases k)
    case 0
    with Cons.prems show ?thesis by (simp add: Let_def)
  next
    case (Suc k')
    show ?thesis
    proof (cases "run s")
      case (Inl e)
      with Cons.prems Suc Cons.IH[of k' "st\<lparr> invoked := invoked st @ [s] \<rparr>"]
      show ?thesis by simp
    next
      case (Inr r')
      let ?st = "(if er_success r' \<and> confidence r' > best_confidence st
                then st\<lparr> invoked := invoked st @ [s], best_result := Some r', best_confidence := confidence r' \<rparr>
                else st\<lparr> invoked := invoked st @ [s] \<rparr>)"
      have nb: "\<not> confidence r' > 0.8"
      proof
        assume "confidence r' > 0.8"
        with Inr Cons.prems(5) Suc show False by (auto simp: Let_def split: if_splits)
      qed
      have eq: "extract_loop run (s # ss) st = extract_loop run ss ?st"
        using Inr nb by (simp add: Let_def)
      have bc: "best_confidence ?st \<le> 0.8" using nb Cons.prems(6) by simp
      have iv: "invoked ?st = invoked st @ [s]" by simp
      from Cons.prems Suc eq iv bc Cons.IH[of k' ?st]
      show ?thesis by simp
    qed
  qed
qed

lemma extract_loop_all_invoked:
  assumes "\<forall>s \<in> set ss. \<forall>r. run s = Inr r \<longrightarrow> \<not> confidence r > 0.8"
  shows "invoked (extract_loop run ss st) = invoked st @ ss"
  using assms
  by (induction ss arbitrary: st) (auto simp: Let_def split: sum.splits)


lemma extract_loop_best:
  assumes "\<forall>s \<in> set ss. \<forall>r. run s = Inr r \<longrightarrow> \<not> confidence r > 0.8"
  shows "best_confidence st \<le> best_confidence (extract_loop run ss st)
    \<and> (\<forall>s \<in> set ss. \<forall>r. run s = Inr r \<and> er_success r
          \<longrightarrow> confidence r \<le> best_confidence (extract_loop run ss st))
    \<and> ((best_result (extract_loop run ss st) = best_result st
          \<and> best_confidence (extract_loop run ss st) = best_confidence st)
        \<or> (\<exists>s \<in> set ss. \<exists>b. run s = Inr b \<and> er_success b
              \<and> best_result (extract_loop run ss st) = Some b
              \<and> best_confidence (extract_loop run ss st) = confidence b))"
  using assms
proof (induction ss arbitrary: st)
  case Nil
  then show ?case by simp
next
  case (Cons s ss)
  have nb: "\<forall>s \<in> set ss. \<forall>r. run s = Inr r \<longrightarrow> \<not> confidence r > 0.8"
    using Cons.prems by simp
  show ?case
  proof (cases "run s")
    case (Inl e)
    with Cons.IH[OF nb, of "st\<lparr> invoked := invoked st @ [s] \<rparr>"]
    show ?thesis by auto
  next
    case (Inr r')
    let ?st = "(if er_success r' \<and> confidence r' > best_confidence st
                then st\<lparr> invoked := invoked st @ [s], best_result := Some r', best_confidence := confidence r' \<rparr>
                else st\<lparr> invoked := invoked st @ [s] \<rparr>)"
    have nb': "\<not> confidence r' > 0.8" using Cons.prems Inr by simp
    have eq: "extract_loop run (s # ss) st = extract_loop run ss ?st"
      using Inr nb' by (simp add: Let_def)
    note IH = Cons.IH[OF nb, of ?st]
    show ?thesis
    proof (cases "er_success r' \<and> confidence r' > best_confidence st")
      case True
      with IH eq Inr show ?thesis by (auto simp: Let_def)
    next
      case False
      with IH eq Inr show ?thesis by (auto simp: Let_def)
    qed
  qed
qed

lemma set_extract_strategies: "s \<in> set extract_strategies"
  by (cases s) (simp_all add: extract_strategies_def)

lemma run_strategy_success_confidence:
  "run_strategy L now parse s html u src = Inr r \<Longrightarrow> er_success r \<Longrightarrow> 0 < confidence r"
  by (cases s) (auto simp: run_strategy_def split: sum.splits if_splits)

text \<open>
  C4, as amended. A document shorter than 100 characters is rejected and no strategy
  is called. On a document of at least 100 characters that the HTML parser accepts,
  \<open>extract_content\<close> returns, and: if the strategy at position \<open>k\<close> of the list is
  called and returns a successful result with confidence above 0.8, the strategies
  called are exactly the first \<open>k + 1\<close> and that result is returned; if no strategy
  returns a result with confidence above 0.8, all four strategies are called, and
  where one of them succeeds the result returned is a successful result of one of them
  whose confidence no other successful result exceeds.
\<close>

theorem extraction_cascade:
  "(length html < 100 \<longrightarrow>
      extract_content_traced L now parse html u src
        = Inr (extraction_failed ''HTML content too short or empty'', []))
   \<and> (100 \<le> length html \<and> soup_error L html = None \<longrightarrow>
      (\<exists>result called.
         extract_content_traced L now parse html u src = Inr (result, called)
         \<and> extract_content L now parse html u src = Inr result
         \<and> (\<forall>k r. k < length called
                \<and> run_strategy L now parse (extract_strategies ! k) html u src = Inr r
                \<and> er_success r \<and> confidence r > 0.8
              \<longrightarrow> called = take (Suc k) extract_strategies \<and> result = r)
         \<and> ((\<forall>s r. run_strategy L now parse s html u src = Inr r \<longrightarrow> \<not> confidence r > 0.8)
              \<longrightarrow> called = extract_strategies
                \<and> (\<forall>s r. run_strategy L now parse s html u src = Inr r \<and> er_success r
                      \<longrightarrow> er_success result \<and> confidence r \<le> confidence result
                        \<and> (\<exists>s'. run_strategy L now parse s' html u src = Inr result)))))"
proof (intro conjI impI)
  assume "length html < 100"
  then show "extract_content_traced L now parse html u src
      = Inr (extraction_failed ''HTML content too short or empty'', [])"
    by (simp add: extract_content_traced_def)
next
  assume long: "100 \<le> length html \<and> soup_error L html = None"
  let ?run = "\<lambda>s. run_strategy L now parse s html u src"
  let ?st0 = "\<lparr> best_result = None, best_confidence = 0, invoked = [] \<rparr>"
  let ?F = "extract_loop ?run extract_strategies ?st0"
  let ?result = "case best_result ?F of
                   None \<Rightarrow> extraction_failed ''All extraction strategies failed''
                 | Some result \<Rightarrow> result"
  have ne: "html \<noteq> []" using long by auto
  have tr: "extract_content_traced L now parse html u src = Inr (?result, invoked ?F)"
    using long ne by (simp add: extract_content_traced_def extract_cascade_def Let_def)
  have ec: "extract_content L now parse html u src = Inr ?result"
    by (simp add: extract_content_def tr)
  have A: "invoked ?F = take (Suc k) extract_strategies \<and> ?result = r"
    if "k < length (invoked ?F)"
      "run_strategy L now parse (extract_strategies ! k) html u src = Inr r"
      "er_success r" "confidence r > 0.8" for k r
  proof -
    obtain n where n: "n \<le> length extract_strategies"
      "invoked ?F = invoked ?st0 @ take n extract_strategies"
      using extract_loop_invoked_prefix [of extract_strategies ?run ?st0] by blast
    have kl: "k < length extract_strategies" using that(1) n by simp
    have "invoked ?F = invoked ?st0 @ take (Suc k) extract_strategies
        \<and> best_result ?F = Some r"
      using extract_loop_short_circuit [of k extract_strategies ?run r ?st0] kl that
      by simp
    then show ?thesis by simp
  qed
  have B: "invoked ?F = extract_strategies
            \<and> (\<forall>s r. run_strategy L now parse s html u src = Inr r \<and> er_success r
                  \<longrightarrow> er_success ?result \<and> confidence r \<le> confidence ?result
                    \<and> (\<exists>s'. run_strategy L now parse s' html u src = Inr ?result))"
    if nb: "\<forall>s r. run_strategy L now parse s html u src = Inr r \<longrightarrow> \<not> confidence r > 0.8"
  proof -
    have nb': "\<forall>s \<in> set extract_strategies. \<forall>r. ?run s = Inr r \<longrightarrow> \<not> confidence r > 0.8"
      using nb by blast
    have inv: "invoked ?F = extract_strategies"
      using extract_loop_all_invoked [OF nb', of ?st0] by simp
    note best = extract_loop_best [OF nb', of ?st0]
    have C: "er_success ?result \<and> confidence r \<le> confidence ?result
          \<and> (\<exists>s'. run_strategy L now parse s' html u src = Inr ?result)"
      if r: "run_strategy L now parse s html u src = Inr r" "er_success r" for s r
    proof -
      have pos: "0 < confidence r" using r by (rule run_strategy_success_confidence)
      have le: "confidence r \<le> best_confidence ?F"
        using best r set_extract_strategies [of s] by blast
      then have "best_confidence ?F \<noteq> best_confidence ?st0" using pos by simp
      with best obtain s' b where b: "?run s' = Inr b" "er_success b"
        "best_result ?F = Some b" "best_confidence ?F = confidence b"
        by blast
      then show ?thesis using le by auto
    qed
    show ?thesis using inv C by blast
  qed
  show "\<exists>result called.
         extract_content_traced L now parse html u src = Inr (result, called)
         \<and> extract_content L now parse html u src = Inr result
         \<and> (\<forall>k r. k < length called
                \<and> run_strategy L now parse (extract_strategies ! k) html u src = Inr r
                \<and> er_success r \<and> confidence r > 0.8
              \<longrightarrow> called = take (Suc k) extract_strategies \<and> result = r)
         \<and> ((\<forall>s r. run_strategy L now parse s html u src = Inr r \<longrightarrow> \<not> confidence r > 0.8)
              \<longrightarrow> called = extract_strategies
                \<and> (\<forall>s r. run_strategy L now parse s html u src = Inr r \<and> er_success r
                      \<longrightarrow> er_success result \<and> confidence r \<le> confidence result
                        \<and> (\<exists>s'. run_strategy L now parse s' html u src = Inr result)))"
    apply (rule exI [of _ ?result])
    apply (rule exI [of _ "invoked ?F"])
    using tr ec A B by blast
qed

lemma html0_length: "length html0 = 120"
  by (simp add: html0_def)

lemma run_structured:
  "run_strategy lib0 t0 parse_structured extract_structured_data html u src
     = Inr \<lparr> er_success = True,
             er_content = Some (build_scraped_content lib0 t0
               \<lparr> cd_title = Some ''Test Article: Musical Analysis'', cd_content = Some test_body,
                 cd_author = None, cd_date = None \<rparr> u src),
             confidence = 0.9, er_method = ''structured_data'', er_errors = [] \<rparr>"
  by (simp add: run_strategy_def parse_structured_def truthy_def test_body_def)

lemma run_generic:
  "run_strategy lib0 t0 parse_generic extract_generic_content html u src
     = Inr \<lparr> er_success = True,
             er_content = Some (build_scraped_content lib0 t0
               \<lparr> cd_title = Some ''Test Article: Musical Analysis'', cd_content = Some test_body,
                 cd_author = None, cd_date = None \<rparr> u src),
             confidence = 0.6, er_method = ''generic'', er_errors = [] \<rparr>"
  by (simp add: run_strategy_def parse_generic_def truthy_def test_body_def)

lemma run_generic_low:
  "run_strategy lib0 t0 parse_generic s html u src = Inr r \<Longrightarrow> \<not> confidence r > 0.8"
  by (cases s) (auto simp: run_strategy_def parse_generic_def truthy_def split: if_splits)

lemma soup_error_lib0: "soup_error lib0 h = None"
  by (simp add: lib0_def)

theorem extraction_cascade_witness:
  "extract_content_traced lib0 t0 parse_structured html_short test_url ''Pitchfork''
     = Inr (extraction_failed ''HTML content too short or empty'', [])
   \<and> (\<exists>result. extract_content_traced lib0 t0 parse_structured html0 test_url ''Pitchfork''
                   = Inr (result, [extract_structured_data])
         \<and> confidence result = 0.9)
   \<and> (\<exists>result. extract_content_traced lib0 t0 parse_generic html0 test_url ''Pitchfork''
                   = Inr (result, [extract_structured_data, extract_semantic_content,
                                   extract_generic_content, extract_fallback_content])
         \<and> er_success result \<and> 0.6 \<le> confidence result)"
proof -
  let ?src = "''Pitchfork''"
  have long: "100 \<le> length html0 \<and> soup_error lib0 html0 = None"
    by (simp add: html0_length soup_error_lib0)
  have short: "length html_short < 100" by (simp add: html_short_def)
  note s0 = extraction_cascade [of html_short lib0 t0 parse_structured test_url ?src,
      THEN conjunct1, THEN mp, OF short]
  from extraction_cascade [of html0 lib0 t0 parse_structured test_url ?src,
      THEN conjunct2, THEN mp, OF long]
  obtain r1 c1 where 1:
    "extract_content_traced lib0 t0 parse_structured html0 test_url ?src = Inr (r1, c1)"
    "\<forall>k r. k < length c1
        \<and> run_strategy lib0 t0 parse_structured (extract_strategies ! k) html0 test_url ?src
            = Inr r
        \<and> er_success r \<and> confidence r > 0.8
      \<longrightarrow> c1 = take (Suc k) extract_strategies \<and> r1 = r"
    by blast
  have "c1 \<noteq> []"
    using 1(1) long
    by (auto simp: extract_content_traced_def extract_cascade_def extract_strategies_def
        run_structured Let_def html0_def)
  then have "0 < length c1" by simp
  with 1(2) [rule_format, of 0] run_structured [of html0 test_url ?src]
  have a: "c1 = [extract_structured_data] \<and> confidence r1 = 0.9"
    by (simp add: extract_strategies_def)
  from extraction_cascade [of html0 lib0 t0 parse_generic test_url ?src,
      THEN conjunct2, THEN mp, OF long]
  obtain r2 c2 where 2:
    "extract_content_traced lib0 t0 parse_generic html0 test_url ?src = Inr (r2, c2)"
    "(\<forall>s r. run_strategy lib0 t0 parse_generic s html0 test_url ?src = Inr r
         \<longrightarrow> \<not> confidence r > 0.8)
      \<longrightarrow> c2 = extract_strategies
        \<and> (\<forall>s r. run_strategy lib0 t0 parse_generic s html0 test_url ?src = Inr r
               \<and> er_success r
             \<longrightarrow> er_success r2 \<and> confidence r \<le> confidence r2
               \<and> (\<exists>s'. run_strategy lib0 t0 parse_generic s' html0 test_url ?src = Inr r2))"
    by blast
  have nb: "\<forall>s r. run_strategy lib0 t0 parse_generic s html0 test_url ?src = Inr r
              \<longrightarrow> \<not> confidence r > 0.8"
    using run_generic_low by blast
  have b: "c2 = extract_strategies \<and> er_success r2 \<and> 0.6 \<le> confidence r2"
    using 2(2) [THEN mp, OF nb] run_generic [of html0 test_url ?src] by fastforce
  show ?thesis
    using s0 1(1) a 2(1) b by (simp add: extract_strategies_def)
qed

text \<open>
  The claim as stated fails on a short document. In \<open><html></html>\<close> no strategy
  finds a title or a body, so none returns a result with confidence above 0.8; yet
  not all strategies are called: none is.
\<close>

theorem short_document_runs_no_strategy:
  "run_strategy lib0 t0 parse_nothing extract_structured_data ''<html></html>'' test_url
       ''Pitchfork''
     = Inr \<lparr> er_success = False, er_content = None, confidence = 0,
             er_method = ''structured_data'', er_errors = [] \<rparr>
   \<and> run_strategy lib0 t0 parse_nothing extract_semantic_content ''<html></html>'' test_url
       ''Pitchfork''
     = Inr \<lparr> er_success = False, er_content = None, confidence = 0,
             er_method = ''semantic'', er_errors = [] \<rparr>
   \<and> run_strategy lib0 t0 parse_nothing extract_generic_content ''<html></html>'' test_url
       ''Pitchfork''
     = Inr \<lparr> er_success = False, er_content = None, confidence = 0,
             er_method = ''generic'', er_errors = [] \<rparr>
   \<and> run_strategy lib0 t0 parse_nothing extract_fallback_content ''<html></html>'' test_url
       ''Pitchfork''
     = Inr \<lparr> er_success = False, er_content = None, confidence = 0,
             er_method = ''fallback'', er_errors = [] \<rparr>
   \<and> extract_content_traced lib0 t0 parse_nothing ''<html></html>'' test_url ''Pitchfork''
     = Inr (extraction_failed ''HTML content too short or empty'', [])
   \<and> snd (projr (extract_content_traced lib0 t0 parse_nothing ''<html></html>'' test_url
         ''Pitchfork'')) \<noteq> extract_strategies"
  by (simp add: run_strategy_def parse_nothing_def truthy_def extract_content_traced_def
      extract_strategies_def)


end
